theory Spec2Isabelle
  imports Main "HOL-Library.Word"
begin

section \<open>JavaScript values, errors and buffers\<close>

text \<open>
  A thrown \<^verbatim>\<open>Error\<close> object carries a message and, optionally, the
  \<^verbatim>\<open>statusCode\<close> the services attach to it and the \<^verbatim>\<open>code\<close> that
  the file system (\<^verbatim>\<open>ENOENT\<close>) and the database driver (\<^verbatim>\<open>23505\<close>) set.
  A function that may throw returns \<open>jserror + 'a\<close>, with \<open>Inl\<close> for the throw.
\<close>

datatype jserror = JSError (message: string) (statusCode: "nat option") (code: "string option")

type_synonym byte = "8 word"

text \<open>The value of a property read: a missing property reads as \<open>Undefined\<close>.\<close>

datatype jsval = Undefined | Null | Str string | Num nat

type_synonym jsobj = "(string \<times> jsval) list"

definition get_prop :: "jsobj \<Rightarrow> string \<Rightarrow> jsval" where
  "get_prop obj k = (case map_of obj k of None \<Rightarrow> Undefined | Some v \<Rightarrow> v)"

text \<open>The file object that the multipart middleware hands to the controller.\<close>

record upload_file =
  originalname :: string
  mimetype :: string
  buffer :: "byte list"
  size_field :: nat

section \<open>Configuration constants\<close>

definition BYTES_PER_MB :: nat where
  "BYTES_PER_MB = 1024 * 1024"

definition MAX_FILE_SIZE :: nat where
  "MAX_FILE_SIZE = 5 * 1024 * 1024"

definition FILE_SIGNATURES :: "(string \<times> byte list list) list" where
  "FILE_SIGNATURES =
    [(''image/jpeg'', [[0xFF, 0xD8, 0xFF]]),
     (''image/png'', [[0x89, 0x50, 0x4E, 0x47]]),
     (''image/gif'', [[0x47, 0x49, 0x46, 0x38]]),
     (''application/pdf'', [[0x25, 0x50, 0x44, 0x46]]),
     (''text/plain'', [])]"

definition ALLOWED_FILES :: "(string \<times> string list) list" where
  "ALLOWED_FILES =
    [(''.jpg'', [''image/jpeg'']),
     (''.jpeg'', [''image/jpeg'']),
     (''.png'', [''image/png'']),
     (''.gif'', [''image/gif'']),
     (''.pdf'', [''application/pdf'']),
     (''.txt'', [''text/plain''])]"

text \<open>
  The rejection message shared by the cross-validation and the signature check. Its two
  non-ASCII letters are written as their UTF-8 bytes.
\<close>

definition HACKER_MESSAGE :: string where
  "HACKER_MESSAGE =
     [char_of (0xC2 :: nat), char_of (0xBF :: nat)] @ ''Te cre'' @
     [char_of (0xC3 :: nat), char_of (0xAD :: nat)] @ '' hacker acaso?''"

section \<open>FileValidationService\<close>

subsection \<open>Size check\<close>

text \<open>
  \<^verbatim>\<open>validateFileSize(buffer)\<close> reads \<^verbatim>\<open>buffer.length\<close> of whatever it is given.
  A \<^verbatim>\<open>Buffer\<close> has a length; the multipart file object has the properties
  \<^verbatim>\<open>originalname\<close>, \<^verbatim>\<open>mimetype\<close>, \<^verbatim>\<open>buffer\<close>, \<^verbatim>\<open>size\<close> (here \<open>size_field\<close>) and no
  \<^verbatim>\<open>length\<close>, so the read gives \<^verbatim>\<open>undefined\<close> (\<open>None\<close>), and
  \<^verbatim>\<open>undefined > n\<close> is false. The function returns its verdict; it does not throw
  (the call of the logger in the failing branch is taken to return).
\<close>

datatype jsarg = BufferArg "byte list" | FileArg upload_file

fun js_length :: "jsarg \<Rightarrow> nat option" where
  "js_length (BufferArg b) = Some (length b)"
| "js_length (FileArg f) = None"

text \<open>The decimal digits of a number, as \<^verbatim>\<open>String(n)\<close> writes a non-negative integer.\<close>

definition digit_char :: "nat \<Rightarrow> char" where
  "digit_char d = ''0123456789'' ! d"

fun digits :: "nat \<Rightarrow> string" where
  "digits n =
     (if n < 10 then [digit_char n]
      else digits (n div 10) @ [digit_char (n mod 10)])"

declare digits.simps [simp del]

text \<open>
  \<^verbatim>\<open>(n / BYTES_PER_MB).toFixed(2)\<close>: the quotient by a power of two is exact, and
  \<^verbatim>\<open>toFixed\<close> rounds it to hundredths, halves upwards.
\<close>

definition toFixed2_MB :: "nat \<Rightarrow> string" where
  "toFixed2_MB n =
     (let h = (2 * 100 * n + BYTES_PER_MB) div (2 * BYTES_PER_MB)
      in digits (h div 100) @ ''.'' @ digits (h mod 100 div 10) @ digits (h mod 10))"

record size_result =
  sr_isValid :: bool
  sr_error :: "string option"
  sr_errorCode :: "string option"

definition validateFileSize :: "jsarg \<Rightarrow> size_result" where
  "validateFileSize arg =
     (case js_length arg of
        None \<Rightarrow> \<lparr>sr_isValid = True, sr_error = None, sr_errorCode = None\<rparr>
      | Some len \<Rightarrow>
          (if len > MAX_FILE_SIZE then
             (let sizeMB = toFixed2_MB len;
                  maxSizeMB = toFixed2_MB MAX_FILE_SIZE
              in \<lparr>sr_isValid = False,
                  sr_error = Some (''File size '' @ sizeMB @ ''MB exceeds maximum allowed size of ''
                                   @ maxSizeMB @ ''MB''),
                  sr_errorCode = Some ''FILE_TOO_LARGE''\<rparr>)
           else \<lparr>sr_isValid = True, sr_error = None, sr_errorCode = None\<rparr>))"

subsection \<open>Extension\<close>

definition toLowerCase_char :: "char \<Rightarrow> char" where
  "toLowerCase_char c =
     (if 65 \<le> (of_char c :: nat) \<and> (of_char c :: nat) \<le> 90
      then char_of ((of_char c :: nat) + 32) else c)"

definition toLowerCase :: "string \<Rightarrow> string" where
  "toLowerCase s = map toLowerCase_char s"

text \<open>\<^verbatim>\<open>s.lastIndexOf('.')\<close>: \<open>None\<close> stands for \<open>-1\<close>.\<close>

fun lastIndexOf_from :: "string \<Rightarrow> char \<Rightarrow> nat \<Rightarrow> nat option" where
  "lastIndexOf_from [] c i = None"
| "lastIndexOf_from (x # xs) c i =
     (case lastIndexOf_from xs c (Suc i) of
        Some j \<Rightarrow> Some j
      | None \<Rightarrow> (if x = c then Some i else None))"

definition lastIndexOf :: "string \<Rightarrow> char \<Rightarrow> nat option" where
  "lastIndexOf s c = lastIndexOf_from s c 0"

definition extractExtension :: "string \<Rightarrow> jserror + string" where
  "extractExtension filename =
     (case lastIndexOf filename (CHR ''.'') of
        None \<Rightarrow> Inl (JSError ''File must have a valid extension'' (Some 400) None)
      | Some lastDot \<Rightarrow>
          (if lastDot = length filename - 1
           then Inl (JSError ''File must have a valid extension'' (Some 400) None)
           else Inr (toLowerCase (drop lastDot filename))))"

fun join :: "string \<Rightarrow> string list \<Rightarrow> string" where
  "join sep [] = []"
| "join sep [x] = x"
| "join sep (x # y # ys) = x @ sep @ join sep (y # ys)"

definition validateExtension :: "string \<Rightarrow> jserror + string" where
  "validateExtension filename =
     (case extractExtension filename of
        Inl e \<Rightarrow> Inl e
      | Inr extension \<Rightarrow>
          (case map_of ALLOWED_FILES extension of
             None \<Rightarrow>
               Inl (JSError (''File extension not allowed. Allowed extensions: ''
                             @ join '', '' (map fst ALLOWED_FILES)) (Some 400) None)
           | Some _ \<Rightarrow> Inr extension))"

subsection \<open>Media type\<close>

text \<open>
  \<^verbatim>\<open>mime.lookup\<close> belongs to an external library: it is a parameter, a function from
  the file name to the type found for it (\<open>None\<close> for \<^verbatim>\<open>false\<close>; a type found
  is a non-empty string).
\<close>

definition validateMimeType :: "(string \<Rightarrow> string option) \<Rightarrow> upload_file \<Rightarrow> jserror + string" where
  "validateMimeType lookup file =
     (case lookup (originalname file) of
        None \<Rightarrow> Inl (JSError ''Could not determine file type'' (Some 400) None)
      | Some detectedMimeType \<Rightarrow> Inr detectedMimeType)"

text \<open>
  Reading \<^verbatim>\<open>includes\<close> of an extension that has no entry throws a
  \<^verbatim>\<open>TypeError\<close>, which has no status code.
\<close>

definition crossValidateExtensionAndMime :: "string \<Rightarrow> string \<Rightarrow> jserror + unit" where
  "crossValidateExtensionAndMime extension mimeType =
     (case map_of ALLOWED_FILES extension of
        None \<Rightarrow>
          Inl (JSError (''Cannot read properties of undefined (reading '' @ [CHR 0x27] @ ''includes''
                        @ [CHR 0x27] @ '')'') None None)
      | Some allowedMimeTypes \<Rightarrow>
          (if mimeType \<notin> set allowedMimeTypes
           then Inl (JSError HACKER_MESSAGE (Some 400) None)
           else Inr ()))"

subsection \<open>Signature\<close>

function bufferStartsWith_from :: "byte list \<Rightarrow> byte list \<Rightarrow> nat \<Rightarrow> bool" where
  "bufferStartsWith_from buf signature i =
     (if i < length signature
      then (if buf ! i \<noteq> signature ! i then False
            else bufferStartsWith_from buf signature (Suc i))
      else True)"
  by pat_completeness auto
termination
  by (relation "measure (\<lambda>(buf, signature, i). length signature - i)") auto

definition bufferStartsWith :: "byte list \<Rightarrow> byte list \<Rightarrow> bool" where
  "bufferStartsWith buf signature =
     (if length buf < length signature then False
      else bufferStartsWith_from buf signature 0)"

text \<open>The loop over the registered signatures, left at the first match.\<close>

fun signatureMatch :: "byte list \<Rightarrow> byte list list \<Rightarrow> bool" where
  "signatureMatch buf [] = False"
| "signatureMatch buf (signature # rest) =
     (if bufferStartsWith buf signature then True else signatureMatch buf rest)"

definition validateFileSignature :: "upload_file \<Rightarrow> string \<Rightarrow> jserror + unit" where
  "validateFileSignature file expectedMimeType =
     (case map_of FILE_SIGNATURES expectedMimeType of
        None \<Rightarrow> Inr ()
      | Some signatures \<Rightarrow>
          (if length signatures = 0 then Inr ()
           else if \<not> signatureMatch (buffer file) signatures
           then Inl (JSError HACKER_MESSAGE (Some 400) None)
           else Inr ()))"

subsection \<open>The pipeline\<close>

record validation_result =
  vr_isValid :: bool
  vr_extension :: string
  vr_mimeType :: string
  vr_size :: nat

text \<open>
  The result of the size check is computed from the file object and not looked at; the
  four other steps throw, and the first throw ends the pipeline.
\<close>

definition validateFile :: "(string \<Rightarrow> string option) \<Rightarrow> upload_file \<Rightarrow> jserror + validation_result" where
  "validateFile lookup file =
     (let sizeCheck = validateFileSize (FileArg file) in
      case validateExtension (originalname file) of
        Inl e \<Rightarrow> Inl e
      | Inr extension \<Rightarrow>
          (case validateMimeType lookup file of
             Inl e \<Rightarrow> Inl e
           | Inr detectedMimeType \<Rightarrow>
               (case crossValidateExtensionAndMime extension detectedMimeType of
                  Inl e \<Rightarrow> Inl e
                | Inr _ \<Rightarrow>
                    (case validateFileSignature file detectedMimeType of
                       Inl e \<Rightarrow> Inl e
                     | Inr _ \<Rightarrow>
                         Inr \<lparr>vr_isValid = True, vr_extension = extension,
                              vr_mimeType = detectedMimeType, vr_size = size_field file\<rparr>))))"

section \<open>The content store, the metadata store and the cleanup queue\<close>

text \<open>
  A row of \<^verbatim>\<open>images_metadata\<close> and a row of \<^verbatim>\<open>cleanup_queue\<close>, with the
  columns the queries name. The driver returns a row as an object keyed by the column
  names, and stores \<^verbatim>\<open>undefined\<close> as \<^verbatim>\<open>NULL\<close>.
\<close>

record image_row =
  r_name :: string
  r_mask_name :: jsval
  r_path :: jsval
  r_mime :: jsval
  r_size :: jsval
  r_created_at :: nat

record queue_row =
  q_name :: string
  q_fail_time :: nat
  q_delete_state :: bool

text \<open>
  The state: the metadata table (unique in \<open>name\<close>, so a map from the name), the queue
  table as the list of its rows in insertion order, the upload directory as a map from
  the file name to the bytes, and the database's \<^verbatim>\<open>CURRENT_TIMESTAMP\<close>.
\<close>

record world =
  images_metadata :: "string \<rightharpoonup> image_row"
  cleanup_queue :: "queue_row list"
  uploads :: "string \<rightharpoonup> byte list"
  current_timestamp :: nat

text \<open>
  Every query and every file-system call may fail for reasons outside the program
  (connection, permissions, constraints of the schema). The environment says, for each
  primitive and argument, whether it fails and with which error; it stays the same during
  one call of a service. A theorem about a scenario states the failures of the scenario
  as hypotheses on this environment; for a primitive that the scenario does not speak
  of, the hypothesis is that it does not fail.
\<close>

record faults =
  db_select_fault :: "string \<Rightarrow> jserror option"
  db_insert_fault :: "image_row \<Rightarrow> jserror option"
  db_delete_fault :: "string \<Rightarrow> jserror option"
  queue_upsert_fault :: "string \<Rightarrow> jserror option"
  queue_select_fault :: "jserror option"
  queue_update_fault :: "string \<Rightarrow> jserror option"
  fs_mkdir_fault :: "jserror option"
  fs_writeFile_fault :: "string \<Rightarrow> jserror option"
  fs_stat_fault :: "string \<Rightarrow> jserror option"
  fs_unlink_fault :: "string \<Rightarrow> jserror option"
  fs_access_fault :: "string \<Rightarrow> jserror option"

definition no_faults :: faults where
  "no_faults =
     \<lparr>db_select_fault = (\<lambda>_. None), db_insert_fault = (\<lambda>_. None),
      db_delete_fault = (\<lambda>_. None), queue_upsert_fault = (\<lambda>_. None),
      queue_select_fault = None, queue_update_fault = (\<lambda>_. None),
      fs_mkdir_fault = None, fs_writeFile_fault = (\<lambda>_. None),
      fs_stat_fault = (\<lambda>_. None), fs_unlink_fault = (\<lambda>_. None),
      fs_access_fault = (\<lambda>_. None)\<rparr>"

definition ENOENT :: jserror where
  "ENOENT = JSError ''ENOENT: no such file or directory'' None (Some ''ENOENT'')"

subsection \<open>File-system primitives\<close>

definition fs_writeFile :: "faults \<Rightarrow> string \<Rightarrow> byte list \<Rightarrow> world \<Rightarrow> (jserror + unit) \<times> world" where
  "fs_writeFile fl filename buf w =
     (case fs_writeFile_fault fl filename of
        Some e \<Rightarrow> (Inl e, w)
      | None \<Rightarrow> (Inr (), w\<lparr>uploads := (uploads w)(filename \<mapsto> buf)\<rparr>))"

definition fs_stat :: "faults \<Rightarrow> string \<Rightarrow> world \<Rightarrow> jserror + nat" where
  "fs_stat fl filename w =
     (case fs_stat_fault fl filename of
        Some e \<Rightarrow> Inl e
      | None \<Rightarrow> (case uploads w filename of None \<Rightarrow> Inl ENOENT | Some b \<Rightarrow> Inr (length b)))"

definition fs_unlink :: "faults \<Rightarrow> string \<Rightarrow> world \<Rightarrow> (jserror + unit) \<times> world" where
  "fs_unlink fl filename w =
     (case fs_unlink_fault fl filename of
        Some e \<Rightarrow> (Inl e, w)
      | None \<Rightarrow>
          (case uploads w filename of
             None \<Rightarrow> (Inl ENOENT, w)
           | Some _ \<Rightarrow> (Inr (), w\<lparr>uploads := (uploads w)(filename := None)\<rparr>)))"

definition fs_access :: "faults \<Rightarrow> string \<Rightarrow> world \<Rightarrow> jserror + unit" where
  "fs_access fl filename w =
     (case fs_access_fault fl filename of
        Some e \<Rightarrow> Inl e
      | None \<Rightarrow> (case uploads w filename of None \<Rightarrow> Inl ENOENT | Some _ \<Rightarrow> Inr ()))"

subsection \<open>FileStorageService\<close>

definition deleteFile :: "faults \<Rightarrow> string \<Rightarrow> world \<Rightarrow> (jserror + bool) \<times> world" where
  "deleteFile fl filename w =
     (case fs_unlink fl filename w of
        (Inr _, w1) \<Rightarrow> (Inr True, w1)
      | (Inl error, w1) \<Rightarrow>
          (if code error = Some ''ENOENT'' then (Inr False, w1) else (Inl error, w1)))"

definition fileExists :: "faults \<Rightarrow> string \<Rightarrow> world \<Rightarrow> bool" where
  "fileExists fl filename w =
     (case fs_access fl filename w of Inr _ \<Rightarrow> True | Inl error \<Rightarrow> False)"

definition ensureUploadDirectory :: "faults \<Rightarrow> jserror + unit" where
  "ensureUploadDirectory fl =
     (case fs_mkdir_fault fl of
        None \<Rightarrow> Inr ()
      | Some error \<Rightarrow> (if code error \<noteq> Some ''EEXIST'' then Inl error else Inr ()))"

text \<open>The body of the \<^verbatim>\<open>try\<close> block of \<^verbatim>\<open>saveFile\<close>; it returns the size written.\<close>

definition saveFile_try :: "faults \<Rightarrow> byte list \<Rightarrow> string \<Rightarrow> world \<Rightarrow> (jserror + nat) \<times> world" where
  "saveFile_try fl buf filename w =
     (case ensureUploadDirectory fl of
        Inl e \<Rightarrow> (Inl e, w)
      | Inr _ \<Rightarrow>
          (case fs_writeFile fl filename buf w of
             (Inl e, w1) \<Rightarrow> (Inl e, w1)
           | (Inr _, w1) \<Rightarrow>
               (case fs_stat fl filename w1 of
                  Inl e \<Rightarrow> (Inl e, w1)
                | Inr stats_size \<Rightarrow>
                    (if stats_size \<noteq> length buf
                     then (Inl (JSError ''File size mismatch after write'' None None), w1)
                     else (Inr stats_size, w1)))))"

definition saveFile :: "faults \<Rightarrow> byte list \<Rightarrow> string \<Rightarrow> world \<Rightarrow> (jserror + nat) \<times> world" where
  "saveFile fl buf filename w =
     (case saveFile_try fl buf filename w of
        (Inr stats_size, w1) \<Rightarrow> (Inr stats_size, w1)
      | (Inl error, w1) \<Rightarrow>
          (let w2 = snd (deleteFile fl filename w1)
           in (Inl (JSError (''File storage failed: '' @ message error) (Some 500) None), w2)))"

definition getRelativePath :: "string \<Rightarrow> string" where
  "getRelativePath filename = ''/uploads/'' @ filename"

text \<open>\<^verbatim>\<open>Date.now()\<close> and the UUID are inputs.\<close>

definition generateUniqueFilename :: "nat \<Rightarrow> string \<Rightarrow> string \<Rightarrow> string" where
  "generateUniqueFilename timestamp uuid originalExtension =
     digits timestamp @ ''_'' @ uuid @ originalExtension"

subsection \<open>ImageMetadataRepository\<close>

definition sql_value :: "jsval \<Rightarrow> jsval" where
  "sql_value v = (case v of Undefined \<Rightarrow> Null | _ \<Rightarrow> v)"

definition row_object :: "image_row \<Rightarrow> jsobj" where
  "row_object r =
     [(''name'', Str (r_name r)), (''mask_name'', r_mask_name r), (''path'', r_path r),
      (''mime'', r_mime r), (''size'', r_size r), (''created_at'', Num (r_created_at r))]"

text \<open>
  Modelled from the spec: the schema of the metadata table is not among the sources; the
  table is keyed by the unique \<open>name\<close>, so an insert of a present name is the unique
  violation \<^verbatim>\<open>23505\<close> that \<^verbatim>\<open>create\<close> looks for, and a row needs a name.
  Any further constraint of the schema is a case of \<open>db_insert_fault\<close>.
  The statement is
  \<^verbatim>\<open>INSERT INTO images_metadata (name, mask_name, path, mime, size) VALUES ($1..$5) RETURNING *\<close>.
\<close>

definition pg_insert_image ::
  "faults \<Rightarrow> jsval \<Rightarrow> jsval \<Rightarrow> jsval \<Rightarrow> jsval \<Rightarrow> jsval \<Rightarrow> world \<Rightarrow> (jserror + image_row list) \<times> world" where
  "pg_insert_image fl v1 v2 v3 v4 v5 w =
     (case sql_value v1 of
        Str n \<Rightarrow>
          (let row = \<lparr>r_name = n, r_mask_name = sql_value v2, r_path = sql_value v3,
                      r_mime = sql_value v4, r_size = sql_value v5,
                      r_created_at = current_timestamp w\<rparr>
           in case db_insert_fault fl row of
                Some e \<Rightarrow> (Inl e, w)
              | None \<Rightarrow>
                  (case images_metadata w n of
                     Some _ \<Rightarrow>
                       (Inl (JSError ''duplicate key value violates unique constraint''
                               None (Some ''23505'')), w)
                   | None \<Rightarrow>
                       (Inr [row], w\<lparr>images_metadata := (images_metadata w)(n \<mapsto> row)\<rparr>)))
      | _ \<Rightarrow>
          (Inl (JSError ''null value in column name violates not-null constraint''
                  None (Some ''23502'')), w))"

definition pg_select_image :: "faults \<Rightarrow> string \<Rightarrow> world \<Rightarrow> jserror + image_row list" where
  "pg_select_image fl n w =
     (case db_select_fault fl n of
        Some e \<Rightarrow> Inl e
      | None \<Rightarrow> (case images_metadata w n of None \<Rightarrow> Inr [] | Some row \<Rightarrow> Inr [row]))"

definition pg_delete_image :: "faults \<Rightarrow> string \<Rightarrow> world \<Rightarrow> (jserror + image_row list) \<times> world" where
  "pg_delete_image fl n w =
     (case db_delete_fault fl n of
        Some e \<Rightarrow> (Inl e, w)
      | None \<Rightarrow>
          (case images_metadata w n of
             None \<Rightarrow> (Inr [], w)
           | Some row \<Rightarrow> (Inr [row], w\<lparr>images_metadata := (images_metadata w)(n := None)\<rparr>)))"

definition database_error :: "jserror \<Rightarrow> jserror" where
  "database_error error = JSError (''Database error: '' @ message error) (Some 500) None"

text \<open>
  \<^verbatim>\<open>create(metadata)\<close> reads the properties \<^verbatim>\<open>name\<close>, \<^verbatim>\<open>maskName\<close>,
  \<^verbatim>\<open>path\<close>, \<^verbatim>\<open>mime\<close> and \<^verbatim>\<open>size\<close> of its argument. What is thrown inside
  the \<^verbatim>\<open>try\<close> is caught and thrown again as a conflict (409) or a database error (500).
\<close>

definition metadata_create :: "faults \<Rightarrow> jsobj \<Rightarrow> world \<Rightarrow> (jserror + image_row) \<times> world" where
  "metadata_create fl metadata w =
     (let name = get_prop metadata ''name'';
          maskName = get_prop metadata ''maskName'';
          path = get_prop metadata ''path'';
          mime = get_prop metadata ''mime'';
          sz = get_prop metadata ''size''
      in case (case pg_insert_image fl name maskName path mime sz w of
                 (Inl e, w1) \<Rightarrow> (Inl e, w1)
               | (Inr rows, w1) \<Rightarrow>
                   (case rows of
                      [] \<Rightarrow> (Inl (JSError ''Failed to create metadata record'' None None), w1)
                    | row # _ \<Rightarrow> (Inr row, w1))) of
           (Inr row, w1) \<Rightarrow> (Inr row, w1)
         | (Inl error, w1) \<Rightarrow>
             (if code error = Some ''23505''
              then (Inl (JSError ''File with this name already exists'' (Some 409) None), w1)
              else (Inl (database_error error), w1)))"

definition metadata_findByName :: "faults \<Rightarrow> string \<Rightarrow> world \<Rightarrow> jserror + image_row option" where
  "metadata_findByName fl name w =
     (case pg_select_image fl name w of
        Inl error \<Rightarrow> Inl (database_error error)
      | Inr rows \<Rightarrow> (case rows of [] \<Rightarrow> Inr None | row # _ \<Rightarrow> Inr (Some row)))"

definition metadata_delete :: "faults \<Rightarrow> string \<Rightarrow> world \<Rightarrow> (jserror + image_row) \<times> world" where
  "metadata_delete fl name w =
     (case (case pg_delete_image fl name w of
              (Inl e, w1) \<Rightarrow> (Inl e, w1)
            | (Inr rows, w1) \<Rightarrow>
                (case rows of
                   [] \<Rightarrow> (Inl (JSError ''File not found'' (Some 404) None), w1)
                 | row # _ \<Rightarrow> (Inr row, w1))) of
        (Inr row, w1) \<Rightarrow> (Inr row, w1)
      | (Inl error, w1) \<Rightarrow>
          (if statusCode error = Some 404 then (Inl error, w1)
           else (Inl (database_error error), w1)))"

subsection \<open>CleanupQueueRepository\<close>

text \<open>
  \<^verbatim>\<open>INSERT INTO cleanup_queue (name, fail_time, delete_state)
  VALUES ($1, CURRENT_TIMESTAMP, FALSE)
  ON CONFLICT (name) DO UPDATE SET fail_time = CURRENT_TIMESTAMP, delete_state = FALSE
  RETURNING *\<close>:
  a row whose name is the new one is a conflict and is updated in place; with no
  conflict the row is appended.
\<close>

definition pg_upsert_queue :: "faults \<Rightarrow> string \<Rightarrow> world \<Rightarrow> (jserror + queue_row list) \<times> world" where
  "pg_upsert_queue fl filename w =
     (case queue_upsert_fault fl filename of
        Some e \<Rightarrow> (Inl e, w)
      | None \<Rightarrow>
          (if filename \<in> set (map q_name (cleanup_queue w))
           then
             (let q = map (\<lambda>r. if q_name r = filename
                                then r\<lparr>q_fail_time := current_timestamp w, q_delete_state := False\<rparr>
                                else r) (cleanup_queue w)
              in (Inr (filter (\<lambda>r. q_name r = filename) q), w\<lparr>cleanup_queue := q\<rparr>))
           else
             (let row = \<lparr>q_name = filename, q_fail_time = current_timestamp w,
                         q_delete_state = False\<rparr>
              in (Inr [row], w\<lparr>cleanup_queue := cleanup_queue w @ [row]\<rparr>))))"

text \<open>
  \<^verbatim>\<open>SELECT * FROM cleanup_queue WHERE delete_state = FALSE ORDER BY fail_time ASC LIMIT $1\<close>.
  Rows of equal \<open>fail_time\<close> come in the order of the table, one of the orders that the
  database may choose.
\<close>

definition pg_select_pending :: "faults \<Rightarrow> nat \<Rightarrow> world \<Rightarrow> jserror + queue_row list" where
  "pg_select_pending fl limit w =
     (case queue_select_fault fl of
        Some e \<Rightarrow> Inl e
      | None \<Rightarrow>
          Inr (take limit (sort_key q_fail_time
                 (filter (\<lambda>r. q_delete_state r = False) (cleanup_queue w)))))"

text \<open>\<^verbatim>\<open>UPDATE cleanup_queue SET delete_state = $1 WHERE name = $2 RETURNING *\<close>\<close>

definition pg_update_queue :: "faults \<Rightarrow> bool \<Rightarrow> string \<Rightarrow> world \<Rightarrow> (jserror + queue_row list) \<times> world" where
  "pg_update_queue fl success filename w =
     (case queue_update_fault fl filename of
        Some e \<Rightarrow> (Inl e, w)
      | None \<Rightarrow>
          (let q = map (\<lambda>r. if q_name r = filename then r\<lparr>q_delete_state := success\<rparr> else r)
                     (cleanup_queue w)
           in (Inr (filter (\<lambda>r. q_name r = filename) q), w\<lparr>cleanup_queue := q\<rparr>)))"

definition queue_add :: "faults \<Rightarrow> string \<Rightarrow> world \<Rightarrow> (jserror + queue_row) \<times> world" where
  "queue_add fl filename w =
     (case (case pg_upsert_queue fl filename w of
              (Inl e, w1) \<Rightarrow> (Inl e, w1)
            | (Inr rows, w1) \<Rightarrow>
                (case rows of
                   [] \<Rightarrow> (Inl (JSError ''Failed to add to cleanup queue'' None None), w1)
                 | row # _ \<Rightarrow> (Inr row, w1))) of
        (Inr row, w1) \<Rightarrow> (Inr row, w1)
      | (Inl error, w1) \<Rightarrow> (Inl (database_error error), w1))"

definition queue_getPending :: "faults \<Rightarrow> nat \<Rightarrow> world \<Rightarrow> jserror + queue_row list" where
  "queue_getPending fl limit w =
     (case pg_select_pending fl limit w of
        Inl error \<Rightarrow> Inl (database_error error)
      | Inr rows \<Rightarrow> Inr rows)"

definition queue_markAsProcessed ::
  "faults \<Rightarrow> string \<Rightarrow> bool \<Rightarrow> world \<Rightarrow> (jserror + queue_row option) \<times> world" where
  "queue_markAsProcessed fl filename success w =
     (case pg_update_queue fl success filename w of
        (Inl error, w1) \<Rightarrow> (Inl (database_error error), w1)
      | (Inr rows, w1) \<Rightarrow>
          (case rows of [] \<Rightarrow> (Inr None, w1) | row # _ \<Rightarrow> (Inr (Some row), w1)))"

section \<open>TransactionService\<close>

text \<open>A failure to enqueue is logged and goes no further: the function never throws.\<close>

definition addToCleanupQueue :: "faults \<Rightarrow> string \<Rightarrow> world \<Rightarrow> world" where
  "addToCleanupQueue fl filename w =
     (case queue_add fl filename w of
        (Inr _, w1) \<Rightarrow> w1
      | (Inl cleanupError, w1) \<Rightarrow> w1)"

text \<open>
  Each of the two compensations has its own \<^verbatim>\<open>try\<close>, whose handler only enqueues, so
  nothing reaches the outer handler of the function and it returns normally.
\<close>

definition rollbackUploadTransaction :: "faults \<Rightarrow> string \<Rightarrow> bool \<Rightarrow> bool \<Rightarrow> world \<Rightarrow> world" where
  "rollbackUploadTransaction fl filename savedFile savedMetadata w =
     (let w1 = (if savedMetadata
                then (case metadata_delete fl filename w of
                        (Inr _, w') \<Rightarrow> w'
                      | (Inl dbError, w') \<Rightarrow> addToCleanupQueue fl filename w')
                else w);
          w2 = (if savedFile
                then (case deleteFile fl filename w1 of
                        (Inr _, w') \<Rightarrow> w'
                      | (Inl fileError, w') \<Rightarrow> addToCleanupQueue fl filename w')
                else w1)
      in w2)"

record upload_transaction_result =
  ut_success :: bool
  ut_filename :: string
  ut_metadata :: jsobj

definition executeUploadTransaction ::
  "faults \<Rightarrow> byte list \<Rightarrow> string \<Rightarrow> jsobj \<Rightarrow> world \<Rightarrow> (jserror + upload_transaction_result) \<times> world" where
  "executeUploadTransaction fl fileBuffer filename metadata w =
     (case saveFile fl fileBuffer filename w of
        (Inl error, w1) \<Rightarrow> (Inl error, rollbackUploadTransaction fl filename False False w1)
      | (Inr _, w1) \<Rightarrow>
          (case metadata_create fl metadata w1 of
             (Inl error, w2) \<Rightarrow> (Inl error, rollbackUploadTransaction fl filename True False w2)
           | (Inr _, w2) \<Rightarrow>
               (Inr \<lparr>ut_success = True, ut_filename = filename, ut_metadata = metadata\<rparr>, w2)))"

definition criticalError :: jserror where
  "criticalError =
     JSError ''Critical system failure during rollback. Operations team has been notified.''
       (Some 500) None"

text \<open>
  The re-insert is given the row that \<^verbatim>\<open>findByName\<close> returned. The outer handler
  throws again what the inner one threw.
\<close>

definition rollbackDeleteTransaction ::
  "faults \<Rightarrow> string \<Rightarrow> image_row option \<Rightarrow> bool \<Rightarrow> world \<Rightarrow> (jserror + unit) \<times> world" where
  "rollbackDeleteTransaction fl filename originalMetadata deletedFromDatabase w =
     (case originalMetadata of
        None \<Rightarrow> (Inr (), w)
      | Some row \<Rightarrow>
          (if deletedFromDatabase
           then (case metadata_create fl (row_object row) w of
                   (Inr _, w1) \<Rightarrow> (Inr (), w1)
                 | (Inl dbError, w1) \<Rightarrow> (Inl criticalError, addToCleanupQueue fl filename w1))
           else (Inr (), w)))"

record delete_transaction_result =
  dt_success :: bool
  dt_filename :: string
  dt_originalMetadata :: image_row

text \<open>
  The \<^verbatim>\<open>catch\<close> block of \<^verbatim>\<open>executeDeleteTransaction\<close>: roll back, then throw the
  error caught, unless the rollback itself threw.
\<close>

definition executeDelete_catch ::
  "faults \<Rightarrow> string \<Rightarrow> jserror \<Rightarrow> image_row option \<Rightarrow> bool \<Rightarrow> world \<Rightarrow>
   (jserror + delete_transaction_result) \<times> world" where
  "executeDelete_catch fl filename error originalMetadata deletedFromDatabase w =
     (case rollbackDeleteTransaction fl filename originalMetadata deletedFromDatabase w of
        (Inl rollbackError, w1) \<Rightarrow> (Inl rollbackError, w1)
      | (Inr _, w1) \<Rightarrow> (Inl error, w1))"

definition executeDeleteTransaction ::
  "faults \<Rightarrow> string \<Rightarrow> world \<Rightarrow> (jserror + delete_transaction_result) \<times> world" where
  "executeDeleteTransaction fl filename w =
     (case metadata_findByName fl filename w of
        Inl error \<Rightarrow> executeDelete_catch fl filename error None False w
      | Inr None \<Rightarrow>
          executeDelete_catch fl filename
            (JSError ''File not found in database'' (Some 404) None) None False w
      | Inr (Some originalMetadata) \<Rightarrow>
          (case metadata_delete fl filename w of
             (Inl error, w1) \<Rightarrow>
               executeDelete_catch fl filename error (Some originalMetadata) False w1
           | (Inr _, w1) \<Rightarrow>
               (case deleteFile fl filename w1 of
                  (Inl error, w2) \<Rightarrow>
                    executeDelete_catch fl filename error (Some originalMetadata) True w2
                | (Inr fileDeleted, w2) \<Rightarrow>
                    (Inr \<lparr>dt_success = True, dt_filename = filename,
                          dt_originalMetadata = originalMetadata\<rparr>, w2))))"

subsection \<open>The queue processor\<close>

text \<open>The \<^verbatim>\<open>try\<close> block of the loop body, for one item.\<close>

definition processCleanupItem_try :: "faults \<Rightarrow> queue_row \<Rightarrow> world \<Rightarrow> (jserror + unit) \<times> world" where
  "processCleanupItem_try fl item w =
     (case metadata_findByName fl (q_name item) w of
        Inl e \<Rightarrow> (Inl e, w)
      | Inr None \<Rightarrow>
          (case (if fileExists fl (q_name item) w
                 then (case deleteFile fl (q_name item) w of
                         (Inl e, w1) \<Rightarrow> (Inl e, w1)
                       | (Inr _, w1) \<Rightarrow> (Inr (), w1))
                 else (Inr (), w)) of
             (Inl e, w1) \<Rightarrow> (Inl e, w1)
           | (Inr _, w1) \<Rightarrow>
               (case queue_markAsProcessed fl (q_name item) True w1 of
                  (Inl e, w2) \<Rightarrow> (Inl e, w2)
                | (Inr _, w2) \<Rightarrow> (Inr (), w2)))
      | Inr (Some metadata) \<Rightarrow>
          (if \<not> fileExists fl (q_name item) w
           then (case queue_markAsProcessed fl (q_name item) False w of
                   (Inl e, w1) \<Rightarrow> (Inl e, w1)
                 | (Inr _, w1) \<Rightarrow> (Inr (), w1))
           else (case queue_markAsProcessed fl (q_name item) True w of
                   (Inl e, w1) \<Rightarrow> (Inl e, w1)
                 | (Inr _, w1) \<Rightarrow> (Inr (), w1))))"

text \<open>
  The loop. An item whose processing throws is marked as not processed and the loop goes
  on; if that marking throws as well, the error leaves the loop and the function.
\<close>

fun processCleanupItems ::
  "faults \<Rightarrow> queue_row list \<Rightarrow> nat \<Rightarrow> world \<Rightarrow> (jserror + nat) \<times> world" where
  "processCleanupItems fl [] processedCount w = (Inr processedCount, w)"
| "processCleanupItems fl (item # items) processedCount w =
     (case processCleanupItem_try fl item w of
        (Inr _, w1) \<Rightarrow> processCleanupItems fl items (processedCount + 1) w1
      | (Inl itemError, w1) \<Rightarrow>
          (case queue_markAsProcessed fl (q_name item) False w1 of
             (Inl error, w2) \<Rightarrow> (Inl error, w2)
           | (Inr _, w2) \<Rightarrow> processCleanupItems fl items processedCount w2))"

definition processCleanupQueue :: "faults \<Rightarrow> world \<Rightarrow> (jserror + nat) \<times> world" where
  "processCleanupQueue fl w =
     (case queue_getPending fl 100 w of
        Inl error \<Rightarrow> (Inl error, w)
      | Inr cleanupItems \<Rightarrow> processCleanupItems fl cleanupItems 0 w)"

section \<open>ImageController: upload\<close>

record query =
  q_convert :: "string option"
  q_type :: "string option"
  q_resize :: "string option"
  q_quality :: "string option"

definition truthy :: "string option \<Rightarrow> bool" where
  "truthy p = (case p of None \<Rightarrow> False | Some v \<Rightarrow> v \<noteq> [])"

definition hasAnyTransformation :: "query \<Rightarrow> bool" where
  "hasAnyTransformation queryParams =
     (truthy (q_convert queryParams) \<or> truthy (q_type queryParams)
      \<or> truthy (q_resize queryParams) \<or> truthy (q_quality queryParams))"

definition startsWith :: "string \<Rightarrow> string \<Rightarrow> bool" where
  "startsWith s p = (take (length p) s = p)"

definition isTransformableImage :: "string \<Rightarrow> bool" where
  "isTransformableImage mimeType = (startsWith mimeType ''image/'' \<and> mimeType \<noteq> ''image/gif'')"

record transformation_result =
  tr_buffer :: "byte list"
  tr_extension :: string
  tr_wasTransformed :: bool

text \<open>
  What the controller takes from outside: the media-type table of the external library,
  the image transformation (run by an external image library, so its result is a
  parameter), the clock and the random UUID of the file name, and whether the process
  runs in development mode.
\<close>

record controller_env =
  mime_lookup :: "string \<Rightarrow> string option"
  transformImage :: "byte list \<Rightarrow> string \<Rightarrow> query \<Rightarrow> jserror + transformation_result"
  date_now :: nat
  uuidv4 :: string
  development :: bool

datatype response_body =
    NoFileProvided
  | TransformationNotSupported string
  | UploadSuccess (data_filename: string) (data_originalname: string) (data_url: string)
      (data_mimetype: string) (data_size: nat)
  | ErrorBody (error_text: string) (error_details: "string option")

record response =
  status :: nat
  body :: response_body

text \<open>Steps 4 to 7 of \<^verbatim>\<open>uploadImage\<close>: name, metadata, transaction, response.\<close>

definition uploadImage_store ::
  "controller_env \<Rightarrow> faults \<Rightarrow> upload_file \<Rightarrow> validation_result \<Rightarrow> transformation_result \<Rightarrow>
   world \<Rightarrow> (jserror + response) \<times> world" where
  "uploadImage_store env fl file validationResult transformationResult w =
     (let uniqueFilename =
            generateUniqueFilename (date_now env) (uuidv4 env) (tr_extension transformationResult);
          metadata =
            [(''name'', Str uniqueFilename),
             (''maskName'', Str (originalname file)),
             (''path'', Str (getRelativePath uniqueFilename)),
             (''mime'', Str (vr_mimeType validationResult)),
             (''size'', Num (length (tr_buffer transformationResult)))]
      in case executeUploadTransaction fl (tr_buffer transformationResult) uniqueFilename metadata w of
           (Inl e, w1) \<Rightarrow> (Inl e, w1)
         | (Inr result, w1) \<Rightarrow>
             (Inr \<lparr>status = 200,
                   body = UploadSuccess uniqueFilename (originalname file)
                            (''/images/'' @ uniqueFilename) (mimetype file)
                            (length (buffer file))\<rparr>, w1))"

definition uploadImage_try ::
  "controller_env \<Rightarrow> faults \<Rightarrow> upload_file \<Rightarrow> query \<Rightarrow> world \<Rightarrow> (jserror + response) \<times> world" where
  "uploadImage_try env fl file queryParams w =
     (case validateFile (mime_lookup env) file of
        Inl e \<Rightarrow> (Inl e, w)
      | Inr validationResult \<Rightarrow>
          (if hasAnyTransformation queryParams then
             (if isTransformableImage (vr_mimeType validationResult) then
                (case transformImage env (buffer file) (vr_extension validationResult) queryParams of
                   Inl e \<Rightarrow> (Inl e, w)
                 | Inr transformationResult \<Rightarrow>
                     uploadImage_store env fl file validationResult transformationResult w)
              else
                (Inr \<lparr>status = 400,
                      body = TransformationNotSupported (vr_mimeType validationResult)\<rparr>, w))
           else
             uploadImage_store env fl file validationResult
               \<lparr>tr_buffer = buffer file, tr_extension = vr_extension validationResult,
                tr_wasTransformed = False\<rparr> w))"

text \<open>
  The handler of the controller: \<^verbatim>\<open>error.statusCode || 500\<close>, and the message is
  shown only below 500.
\<close>

definition error_response :: "controller_env \<Rightarrow> jserror \<Rightarrow> response" where
  "error_response env error =
     (let sc = (case statusCode error of None \<Rightarrow> 500 | Some c \<Rightarrow> if c = 0 then 500 else c);
          msg = (if sc < 500 then message error else ''Internal server error'')
      in \<lparr>status = sc,
          body = ErrorBody msg (if development env then Some (message error) else None)\<rparr>)"

definition uploadImage ::
  "controller_env \<Rightarrow> faults \<Rightarrow> upload_file option \<Rightarrow> query \<Rightarrow> world \<Rightarrow> response \<times> world" where
  "uploadImage env fl req_file req_query w =
     (case req_file of
        None \<Rightarrow> (\<lparr>status = 400, body = NoFileProvided\<rparr>, w)
      | Some file \<Rightarrow>
          (case uploadImage_try env fl file req_query w of
             (Inr res, w1) \<Rightarrow> (res, w1)
           | (Inl error, w1) \<Rightarrow> (error_response env error, w1)))"

section \<open>Example inputs\<close>

text \<open>
  An excerpt of the external library's table from extensions to media types, for the
  concrete examples only; the general theorems hold for every lookup function.
\<close>

definition mime_types :: "(string \<times> string) list" where
  "mime_types =
     [(''jpg'', ''image/jpeg''), (''jpeg'', ''image/jpeg''), (''png'', ''image/png''),
      (''gif'', ''image/gif''), (''pdf'', ''application/pdf''), (''txt'', ''text/plain''),
      (''js'', ''application/javascript'')]"

definition mime_lookup_std :: "string \<Rightarrow> string option" where
  "mime_lookup_std path =
     (case lastIndexOf path (CHR ''.'') of
        None \<Rightarrow> None
      | Some i \<Rightarrow> map_of mime_types (toLowerCase (drop (Suc i) path)))"

definition jpeg_for_all :: "string \<Rightarrow> string option" where
  "jpeg_for_all path = Some ''image/jpeg''"

definition big_png :: upload_file where
  "big_png =
     \<lparr>originalname = ''photo.png'', mimetype = ''image/png'',
      buffer = [0x89, 0x50, 0x4E, 0x47] @ replicate 5242877 0, size_field = 5242881\<rparr>"

definition empty_txt :: upload_file where
  "empty_txt =
     \<lparr>originalname = ''empty.txt'', mimetype = ''text/plain'', buffer = [], size_field = 0\<rparr>"

definition empty_png :: upload_file where
  "empty_png =
     \<lparr>originalname = ''empty.png'', mimetype = ''image/png'', buffer = [], size_field = 0\<rparr>"

definition std_env :: controller_env where
  "std_env =
     \<lparr>mime_lookup = mime_lookup_std,
      transformImage = (\<lambda>b e q. Inr \<lparr>tr_buffer = b, tr_extension = e, tr_wasTransformed = False\<rparr>),
      date_now = 1700000000000, uuidv4 = ''3f2b8c1e-0000-4000-8000-000000000001'',
      development = False\<rparr>"

definition no_query :: query where
  "no_query = \<lparr>q_convert = None, q_type = None, q_resize = None, q_quality = None\<rparr>"

definition empty_world :: world where
  "empty_world =
     \<lparr>images_metadata = Map.empty, cleanup_queue = [], uploads = Map.empty,
      current_timestamp = 0\<rparr>"

definition octet_png :: upload_file where
  "octet_png =
     \<lparr>originalname = ''photo.png'', mimetype = ''application/octet-stream'',
      buffer = [0x89, 0x50, 0x4E, 0x47, 0x0D, 0x0A, 0x1A, 0x0A], size_field = 8\<rparr>"

definition stored_name :: string where
  "stored_name = ''1700000000000_3f2b8c1e-0000-4000-8000-000000000001.png''"

definition EACCES :: jserror where
  "EACCES = JSError ''EACCES: permission denied, unlink'' None (Some ''EACCES'')"

definition connection_lost :: jserror where
  "connection_lost = JSError ''Connection terminated unexpectedly'' None None"

definition unlink_denied :: faults where
  "unlink_denied = no_faults\<lparr>fs_unlink_fault := (\<lambda>_. Some EACCES)\<rparr>"

definition insert_fails :: faults where
  "insert_fails = no_faults\<lparr>db_insert_fault := (\<lambda>_. Some connection_lost)\<rparr>"

definition unlink_and_insert_fail :: faults where
  "unlink_and_insert_fail =
     no_faults\<lparr>fs_unlink_fault := (\<lambda>_. Some EACCES),
               db_insert_fault := (\<lambda>_. Some connection_lost)\<rparr>"

definition png_bytes :: "byte list" where
  "png_bytes = [0x89, 0x50, 0x4E, 0x47]"

definition stored_row :: image_row where
  "stored_row =
     \<lparr>r_name = ''a.png'', r_mask_name = Str ''photo.png'', r_path = Str ''/uploads/a.png'',
      r_mime = Str ''image/png'', r_size = Num 4, r_created_at = 1\<rparr>"

text \<open>A world that holds one file in both stores, and one that has lost the blob.\<close>

definition stored_world :: world where
  "stored_world =
     \<lparr>images_metadata = [''a.png'' \<mapsto> stored_row], cleanup_queue = [],
      uploads = [''a.png'' \<mapsto> png_bytes], current_timestamp = 2\<rparr>"

definition metadata_only_world :: world where
  "metadata_only_world =
     \<lparr>images_metadata = [''a.png'' \<mapsto> stored_row], cleanup_queue = [],
      uploads = Map.empty, current_timestamp = 2\<rparr>"

definition example_metadata :: jsobj where
  "example_metadata =
     [(''name'', Str ''n.png''), (''maskName'', Str ''photo.png''),
      (''path'', Str ''/uploads/n.png''), (''mime'', Str ''image/png''), (''size'', Num 4)]"

text \<open>
  A queue with three pending entries: an orphaned blob, a file present in both stores,
  a metadata row whose blob is gone; and one entry resolved earlier.
\<close>

definition queue_world :: world where
  "queue_world =
     \<lparr>images_metadata = [''ok.png'' \<mapsto> stored_row\<lparr>r_name := ''ok.png''\<rparr>,
                         ''lost.png'' \<mapsto> stored_row\<lparr>r_name := ''lost.png''\<rparr>],
      cleanup_queue =
        [\<lparr>q_name = ''orphan.png'', q_fail_time = 10, q_delete_state = False\<rparr>,
         \<lparr>q_name = ''ok.png'', q_fail_time = 20, q_delete_state = False\<rparr>,
         \<lparr>q_name = ''old.png'', q_fail_time = 5, q_delete_state = True\<rparr>,
         \<lparr>q_name = ''lost.png'', q_fail_time = 30, q_delete_state = False\<rparr>],
      uploads = [''orphan.png'' \<mapsto> png_bytes, ''ok.png'' \<mapsto> png_bytes],
      current_timestamp = 40\<rparr>"

section \<open>Auxiliary definitions of the proofs\<close>

text \<open>The queue table after the upsert of a name at a time.\<close>

definition queue_upserted :: "string \<Rightarrow> nat \<Rightarrow> queue_row list \<Rightarrow> queue_row list" where
  "queue_upserted filename t q =
     (if filename \<in> set (map q_name q)
      then map (\<lambda>r. if q_name r = filename
                     then r\<lparr>q_fail_time := t, q_delete_state := False\<rparr> else r) q
      else q @ [\<lparr>q_name = filename, q_fail_time = t, q_delete_state = False\<rparr>])"

text \<open>The queue table after the update of the state of a name.\<close>

definition queue_marked :: "string \<Rightarrow> bool \<Rightarrow> queue_row list \<Rightarrow> queue_row list" where
  "queue_marked n b q = map (\<lambda>r. if q_name r = n then r\<lparr>q_delete_state := b\<rparr> else r) q"

text \<open>
  What the processor finds for a name: no metadata row (then the blob is to go), or a
  row and its blob.
\<close>

definition stores_agree :: "world \<Rightarrow> string \<Rightarrow> bool" where
  "stores_agree w n = (images_metadata w n = None \<or> uploads w n \<noteq> None)"

text \<open>The world after the processor has handled the entry of a name, when nothing fails.\<close>

definition step_world :: "world \<Rightarrow> string \<Rightarrow> world" where
  "step_world w n =
     w\<lparr>uploads := (if images_metadata w n = None then (uploads w)(n := None) else uploads w),
       cleanup_queue := queue_marked n (stores_agree w n) (cleanup_queue w)\<rparr>"

text \<open>The row that the re-insert of a row read from the table writes at a time.\<close>

definition restored_row :: "image_row \<Rightarrow> nat \<Rightarrow> image_row" where
  "restored_row row t =
     \<lparr>r_name = r_name row, r_mask_name = Null, r_path = sql_value (r_path row),
      r_mime = sql_value (r_mime row), r_size = sql_value (r_size row), r_created_at = t\<rparr>"

text \<open>The metadata object that the controller builds, and the row that its insert writes.\<close>

definition upload_metadata :: "string \<Rightarrow> string \<Rightarrow> string \<Rightarrow> nat \<Rightarrow> jsobj" where
  "upload_metadata name maskName mime sz =
     [(''name'', Str name), (''maskName'', Str maskName), (''path'', Str (getRelativePath name)),
      (''mime'', Str mime), (''size'', Num sz)]"

definition uploaded_row :: "string \<Rightarrow> string \<Rightarrow> string \<Rightarrow> nat \<Rightarrow> nat \<Rightarrow> image_row" where
  "uploaded_row name maskName mime sz t =
     \<lparr>r_name = name, r_mask_name = Str maskName, r_path = Str (getRelativePath name),
      r_mime = Str mime, r_size = Num sz, r_created_at = t\<rparr>"

section \<open>Properties of the validation pipeline\<close>

declare bufferStartsWith_from.simps [simp del]

lemma bufferStartsWith_from_eq:
  "i \<le> length signature \<Longrightarrow> length signature \<le> length buf \<Longrightarrow>
   bufferStartsWith_from buf signature i =
     (drop i (take (length signature) buf) = drop i signature)"
proof (induction buf signature i rule: bufferStartsWith_from.induct)
  case (1 buf signature i)
  show ?case
  proof (cases "i < length signature")
    case True
    have d1: "drop i (take (length signature) buf)
              = buf ! i # drop (Suc i) (take (length signature) buf)"
      using True 1(3) by (simp add: Cons_nth_drop_Suc [symmetric])
    have d2: "drop i signature = signature ! i # drop (Suc i) signature"
      using True by (simp add: Cons_nth_drop_Suc)
    show ?thesis
    proof (cases "buf ! i = signature ! i")
      case eq: True
      have "bufferStartsWith_from buf signature i = bufferStartsWith_from buf signature (Suc i)"
        using True eq by (subst bufferStartsWith_from.simps) simp
      also have "\<dots> = (drop (Suc i) (take (length signature) buf) = drop (Suc i) signature)"
        using 1(1) [OF True] eq True 1(3) by simp
      finally show ?thesis using d1 d2 eq by simp
    next
      case False
      then show ?thesis using True d1 d2
        by (subst bufferStartsWith_from.simps) simp
    qed
  next
    case False
    then show ?thesis using 1(2)
      by (subst bufferStartsWith_from.simps) simp
  qed
qed

text \<open>The index loop decides whether the signature is a prefix of the buffer.\<close>

lemma bufferStartsWith_eq:
  "bufferStartsWith buf signature =
     (length signature \<le> length buf \<and> take (length signature) buf = signature)"
  by (auto simp: bufferStartsWith_def bufferStartsWith_from_eq)

lemma signatureMatch_short:
  "\<forall>s\<in>set sigs. length buf < length s \<Longrightarrow> \<not> signatureMatch buf sigs"
  by (induction sigs) (auto simp: bufferStartsWith_def)

lemma validateFileSignature_short:
  assumes "map_of FILE_SIGNATURES mime = Some sigs" and "sigs \<noteq> []"
    and "\<forall>s\<in>set sigs. length (buffer file) < length s"
  shows "validateFileSignature file mime = Inl (JSError HACKER_MESSAGE (Some 400) None)"
  using assms by (simp add: validateFileSignature_def signatureMatch_short)

lemma validateExtension_examples:
  "validateExtension ''empty.txt'' = Inr ''.txt''"
  "validateExtension ''empty.png'' = Inr ''.png''"
  "validateExtension ''photo.png'' = Inr ''.png''"
  by (simp_all add: validateExtension_def extractExtension_def lastIndexOf_def toLowerCase_def
      toLowerCase_char_def ALLOWED_FILES_def)

lemma mime_lookup_std_examples:
  "mime_lookup_std ''empty.txt'' = Some ''text/plain''"
  "mime_lookup_std ''empty.png'' = Some ''image/png''"
  "mime_lookup_std ''photo.png'' = Some ''image/png''"
  by (simp_all add: mime_lookup_std_def lastIndexOf_def toLowerCase_def toLowerCase_char_def
      mime_types_def)

text \<open>A file that the pipeline rejects is answered with the error, and no store changes.\<close>

lemma uploadImage_rejected:
  "validateFile (mime_lookup env) file = Inl e \<Longrightarrow>
   uploadImage env fl (Some file) q w = (error_response env e, w)"
  by (simp add: uploadImage_def uploadImage_try_def)

subsection \<open>The size check\<close>

text \<open>
  Given the file object, as \<^verbatim>\<open>validateFile\<close> gives it, the size check says valid
  whatever the size; given the buffer of the 5 MiB + 1 byte example it says invalid.
\<close>

lemma validateFileSize_of_file:
  "validateFileSize (FileArg file) = \<lparr>sr_isValid = True, sr_error = None, sr_errorCode = None\<rparr>"
  by (simp add: validateFileSize_def)

lemma validateFileSize_of_big_buffer:
  "sr_isValid (validateFileSize (BufferArg (buffer big_png))) = False
   \<and> sr_errorCode (validateFileSize (BufferArg (buffer big_png))) = Some ''FILE_TOO_LARGE''"
  by (simp add: validateFileSize_def big_png_def MAX_FILE_SIZE_def Let_def)

text \<open>
  Claim C6 (every file whose buffer is longer than the 5 MiB ceiling is rejected by
  \<^verbatim>\<open>validateFile\<close> at the size check, the first gate) does not hold of the code:
  a PNG of 5 MiB + 1 byte passes the whole pipeline. The size check is called on the
  file object, whose \<^verbatim>\<open>length\<close> is undefined, and its verdict is dropped.
\<close>

theorem validateFile_accepts_oversized_png:
  "length (buffer big_png) > MAX_FILE_SIZE
   \<and> validateFile mime_lookup_std big_png =
       Inr \<lparr>vr_isValid = True, vr_extension = ''.png'', vr_mimeType = ''image/png'',
            vr_size = 5242881\<rparr>"
  by (simp add: validateFile_def validateExtension_examples mime_lookup_std_examples big_png_def
      validateMimeType_def crossValidateExtensionAndMime_def ALLOWED_FILES_def
      validateFileSignature_def FILE_SIGNATURES_def bufferStartsWith_eq MAX_FILE_SIZE_def)

subsection \<open>Cross-validation and signature rejections\<close>

text \<open>
  Claim C7: take any input rejected at the extension/MIME cross-validation (its extension
  and media type passed the two steps before) and any input rejected at the signature
  check (it passed the three steps before). Both calls of \<^verbatim>\<open>validateFile\<close> throw
  the same error, with the same generic message and the status code 400, and the
  controller answers both with the same response.
\<close>

theorem cross_and_signature_rejections_indistinguishable:
  assumes "validateExtension (originalname f1) = Inr ext1"
      and "validateMimeType lookup1 f1 = Inr m1"
      and "crossValidateExtensionAndMime ext1 m1 = Inl e1"
      and "validateExtension (originalname f2) = Inr ext2"
      and "validateMimeType lookup2 f2 = Inr m2"
      and "crossValidateExtensionAndMime ext2 m2 = Inr ()"
      and "validateFileSignature f2 m2 = Inl e2"
  shows "validateFile lookup1 f1 = Inl e1 \<and> validateFile lookup2 f2 = Inl e2
       \<and> e1 = e2 \<and> message e1 = HACKER_MESSAGE \<and> statusCode e1 = Some 400
       \<and> error_response env e1 = error_response env e2"
proof -
  have x: "map_of ALLOWED_FILES ext1 \<noteq> None"
    using assms(1) by (auto simp: validateExtension_def split: sum.splits option.splits)
  have e1: "e1 = JSError HACKER_MESSAGE (Some 400) None"
    using assms(3) x
    by (auto simp: crossValidateExtensionAndMime_def split: option.splits if_splits)
  have e2: "e2 = JSError HACKER_MESSAGE (Some 400) None"
    using assms(7) by (auto simp: validateFileSignature_def split: option.splits if_splits)
  show ?thesis using assms e1 e2 by (simp add: validateFile_def)
qed

text \<open>
  The witness: \<^verbatim>\<open>empty.png\<close> under a lookup that answers \<^verbatim>\<open>image/jpeg\<close> fails the
  cross-validation; under the usual lookup it passes it and fails the signature check.
  (For the allowed extensions the usual table agrees with the allow-list, so a rejection
  at the cross-validation needs another table.)
\<close>

theorem cross_and_signature_rejections_indistinguishable_witness:
  "validateFile jpeg_for_all empty_png = Inl (JSError HACKER_MESSAGE (Some 400) None)
   \<and> validateFile mime_lookup_std empty_png = Inl (JSError HACKER_MESSAGE (Some 400) None)
   \<and> crossValidateExtensionAndMime ''.png'' ''image/jpeg''
       = Inl (JSError HACKER_MESSAGE (Some 400) None)
   \<and> crossValidateExtensionAndMime ''.png'' ''image/png'' = Inr ()
   \<and> validateFileSignature empty_png ''image/png''
       = Inl (JSError HACKER_MESSAGE (Some 400) None)"
proof -
  have a1: "validateExtension (originalname empty_png) = Inr ''.png''"
    by (simp add: empty_png_def validateExtension_examples)
  have a2: "validateMimeType jpeg_for_all empty_png = Inr ''image/jpeg''"
    by (simp add: validateMimeType_def jpeg_for_all_def)
  have a3: "crossValidateExtensionAndMime ''.png'' ''image/jpeg''
            = Inl (JSError HACKER_MESSAGE (Some 400) None)"
    by (simp add: crossValidateExtensionAndMime_def ALLOWED_FILES_def)
  have a5: "validateMimeType mime_lookup_std empty_png = Inr ''image/png''"
    by (simp add: validateMimeType_def empty_png_def mime_lookup_std_examples)
  have a6: "crossValidateExtensionAndMime ''.png'' ''image/png'' = Inr ()"
    by (simp add: crossValidateExtensionAndMime_def ALLOWED_FILES_def)
  have a7: "validateFileSignature empty_png ''image/png''
            = Inl (JSError HACKER_MESSAGE (Some 400) None)"
    by (simp add: validateFileSignature_def FILE_SIGNATURES_def empty_png_def
        bufferStartsWith_eq)
  from cross_and_signature_rejections_indistinguishable [OF a1 a2 a3 a1 a5 a6 a7] a3 a6 a7
  show ?thesis by simp
qed

subsection \<open>Buffers shorter than every signature\<close>

text \<open>
  Claim C10, as stated, counts a media type with no registered signature among its
  cases: every buffer is shorter than each of no prefixes. For such a type the check is
  skipped, so the empty \<^verbatim>\<open>empty.txt\<close> is not rejected: it passes the signature
  check and the whole pipeline.
\<close>

theorem empty_text_file_passes_signature_check:
  "map_of FILE_SIGNATURES ''text/plain'' = Some []
   \<and> buffer empty_txt = []
   \<and> validateFileSignature empty_txt ''text/plain'' = Inr ()
   \<and> validateFile mime_lookup_std empty_txt =
       Inr \<lparr>vr_isValid = True, vr_extension = ''.txt'', vr_mimeType = ''text/plain'',
            vr_size = 0\<rparr>"
  by (simp add: validateFile_def validateExtension_examples mime_lookup_std_examples
      empty_txt_def validateMimeType_def crossValidateExtensionAndMime_def ALLOWED_FILES_def
      validateFileSignature_def FILE_SIGNATURES_def)

text \<open>
  Claim C10, amended: when the inferred media type has at least one registered signature
  and the buffer (the empty one included) is shorter than each of them, every prefix
  comparison returns false, the signature check throws the generic rejection, and an
  upload of the file is answered with an error while the metadata store, the content store
  and the queue stay as they were.
\<close>

theorem short_buffer_fails_signature_check:
  assumes "map_of FILE_SIGNATURES mime = Some sigs" and "sigs \<noteq> []"
    and "\<forall>s\<in>set sigs. length (buffer file) < length s"
  shows "(\<forall>s\<in>set sigs. \<not> bufferStartsWith (buffer file) s)
       \<and> validateFileSignature file mime = Inl (JSError HACKER_MESSAGE (Some 400) None)
       \<and> (mime_lookup env (originalname file) = Some mime \<longrightarrow>
            (\<exists>e. validateFile (mime_lookup env) file = Inl e
                 \<and> uploadImage env fl (Some file) q w = (error_response env e, w)))"
proof (intro conjI impI)
  show "\<forall>s\<in>set sigs. \<not> bufferStartsWith (buffer file) s"
    using assms(3) by (simp add: bufferStartsWith_def)
  show sig: "validateFileSignature file mime = Inl (JSError HACKER_MESSAGE (Some 400) None)"
    using assms by (rule validateFileSignature_short)
  assume lk: "mime_lookup env (originalname file) = Some mime"
  have "\<exists>e. validateFile (mime_lookup env) file = Inl e"
    using sig lk by (simp add: validateFile_def validateMimeType_def split: sum.splits)
  then obtain e where e: "validateFile (mime_lookup env) file = Inl e" ..
  then show "\<exists>e. validateFile (mime_lookup env) file = Inl e
                 \<and> uploadImage env fl (Some file) q w = (error_response env e, w)"
    using uploadImage_rejected by blast
qed

theorem short_buffer_fails_signature_check_witness:
  "map_of FILE_SIGNATURES ''image/png'' = Some [[0x89, 0x50, 0x4E, 0x47]]
   \<and> length (buffer empty_png) < length [0x89, 0x50, 0x4E, 0x47 :: byte]
   \<and> mime_lookup std_env (originalname empty_png) = Some ''image/png''
   \<and> \<not> bufferStartsWith (buffer empty_png) [0x89, 0x50, 0x4E, 0x47]
   \<and> validateFileSignature empty_png ''image/png''
       = Inl (JSError HACKER_MESSAGE (Some 400) None)
   \<and> (\<exists>e. validateFile (mime_lookup std_env) empty_png = Inl e
          \<and> uploadImage std_env no_faults (Some empty_png) no_query empty_world
              = (error_response std_env e, empty_world))"
proof -
  have a: "map_of FILE_SIGNATURES ''image/png'' = Some [[0x89, 0x50, 0x4E, 0x47]]"
    by (simp add: FILE_SIGNATURES_def)
  have b: "[[0x89, 0x50, 0x4E, 0x47 :: byte]] \<noteq> []" by simp
  have c: "\<forall>s\<in>set [[0x89, 0x50, 0x4E, 0x47 :: byte]]. length (buffer empty_png) < length s"
    by (simp add: empty_png_def)
  have d: "mime_lookup std_env (originalname empty_png) = Some ''image/png''"
    by (simp add: std_env_def empty_png_def mime_lookup_std_examples)
  from short_buffer_fails_signature_check [OF a b c, of std_env no_faults no_query empty_world]
    a c d
  show ?thesis by simp
qed

section \<open>Properties of the stores and of the transactions\<close>

lemma no_faults_simps [simp]:
  "db_select_fault no_faults n = None"
  "db_insert_fault no_faults r = None"
  "db_delete_fault no_faults n = None"
  "queue_upsert_fault no_faults n = None"
  "queue_select_fault no_faults = None"
  "queue_update_fault no_faults n = None"
  "fs_mkdir_fault no_faults = None"
  "fs_writeFile_fault no_faults n = None"
  "fs_stat_fault no_faults n = None"
  "fs_unlink_fault no_faults n = None"
  "fs_access_fault no_faults n = None"
  by (simp_all add: no_faults_def)

lemma insert_fails_simps [simp]:
  "db_insert_fault insert_fails r = Some connection_lost"
  "fs_mkdir_fault insert_fails = None"
  "fs_writeFile_fault insert_fails n = None"
  "fs_stat_fault insert_fails n = None"
  "fs_unlink_fault insert_fails n = None"
  "queue_upsert_fault insert_fails n = None"
  by (simp_all add: insert_fails_def no_faults_def)

lemma unlink_and_insert_fail_simps [simp]:
  "db_insert_fault unlink_and_insert_fail r = Some connection_lost"
  "db_select_fault unlink_and_insert_fail n = None"
  "db_delete_fault unlink_and_insert_fail n = None"
  "fs_mkdir_fault unlink_and_insert_fail = None"
  "fs_writeFile_fault unlink_and_insert_fail n = None"
  "fs_stat_fault unlink_and_insert_fail n = None"
  "fs_unlink_fault unlink_and_insert_fail n = Some EACCES"
  "queue_upsert_fault unlink_and_insert_fail n = None"
  by (simp_all add: unlink_and_insert_fail_def no_faults_def)

lemma metadata_create_insert_fault:
  assumes "\<And>r. db_insert_fault fl r = Some connection_lost"
  shows "metadata_create fl example_metadata w = (Inl (database_error connection_lost), w)"
  using assms
  by (simp add: metadata_create_def example_metadata_def get_prop_def pg_insert_image_def
      sql_value_def connection_lost_def Let_def)



lemma saveFile_try_Inr:
  assumes "saveFile_try fl buf filename w = (Inr sz, w1)"
  shows "w1 = w\<lparr>uploads := (uploads w)(filename \<mapsto> buf)\<rparr> \<and> sz = length buf"
proof (cases "ensureUploadDirectory fl")
  case (Inl a)
  then show ?thesis using assms by (simp add: saveFile_try_def)
next
  case (Inr u)
  show ?thesis
  proof (cases "fs_writeFile_fault fl filename")
    case (Some a)
    then show ?thesis using assms Inr by (simp add: saveFile_try_def fs_writeFile_def)
  next
    case None
    show ?thesis
    proof (cases "fs_stat_fault fl filename")
      case (Some a)
      then show ?thesis using assms Inr None
        by (simp add: saveFile_try_def fs_writeFile_def fs_stat_def)
    next
      case n2: None
      then show ?thesis using assms Inr None
        by (simp add: saveFile_try_def fs_writeFile_def fs_stat_def split: if_splits)
    qed
  qed
qed

lemma saveFile_Inr:
  assumes "saveFile fl buf filename w = (Inr sz, w1)"
  shows "w1 = w\<lparr>uploads := (uploads w)(filename \<mapsto> buf)\<rparr> \<and> sz = length buf"
proof (cases "saveFile_try fl buf filename w")
  case (Pair r w')
  show ?thesis
  proof (cases r)
    case (Inl a)
    then show ?thesis using assms Pair by (simp add: saveFile_def Let_def)
  next
    case (Inr b)
    then show ?thesis using assms Pair saveFile_try_Inr [of fl buf filename w b w']
      by (simp add: saveFile_def)
  qed
qed

lemma saveFile_no_fault:
  assumes "fs_mkdir_fault fl = None" "fs_writeFile_fault fl filename = None"
    "fs_stat_fault fl filename = None"
  shows "saveFile fl buf filename w = (Inr (length buf), w\<lparr>uploads := (uploads w)(filename \<mapsto> buf)\<rparr>)"
  using assms
  by (simp add: saveFile_def saveFile_try_def ensureUploadDirectory_def fs_writeFile_def fs_stat_def)

lemma pg_insert_image_Inl:
  assumes "pg_insert_image fl v1 v2 v3 v4 v5 w = (Inl e, w1)"
  shows "w1 = w"
proof (cases "sql_value v1")
  case (Str n)
  let ?row = "\<lparr>r_name = n, r_mask_name = sql_value v2, r_path = sql_value v3,
                r_mime = sql_value v4, r_size = sql_value v5,
                r_created_at = current_timestamp w\<rparr>"
  show ?thesis
  proof (cases "db_insert_fault fl ?row")
    case None
    then show ?thesis using assms Str
      by (cases "images_metadata w n") (simp_all add: pg_insert_image_def Let_def)
  next
    case (Some a)
    then show ?thesis using assms Str by (simp add: pg_insert_image_def Let_def)
  qed
qed (use assms in \<open>simp_all add: pg_insert_image_def\<close>)

lemma pg_insert_image_Inr:
  assumes "pg_insert_image fl v1 v2 v3 v4 v5 w = (Inr rows, w1)"
  shows "\<exists>n. sql_value v1 = Str n \<and> images_metadata w n = None
           \<and> rows = [\<lparr>r_name = n, r_mask_name = sql_value v2, r_path = sql_value v3,
                r_mime = sql_value v4, r_size = sql_value v5,
                r_created_at = current_timestamp w\<rparr>]
           \<and> w1 = w\<lparr>images_metadata := (images_metadata w)(n \<mapsto> hd rows)\<rparr>"
proof (cases "sql_value v1")
  case (Str n)
  let ?row = "\<lparr>r_name = n, r_mask_name = sql_value v2, r_path = sql_value v3,
                r_mime = sql_value v4, r_size = sql_value v5,
                r_created_at = current_timestamp w\<rparr>"
  show ?thesis
  proof (cases "db_insert_fault fl ?row")
    case None
    then show ?thesis using assms Str
      by (cases "images_metadata w n") (auto simp add: pg_insert_image_def Let_def)
  next
    case (Some a)
    then show ?thesis using assms Str by (simp add: pg_insert_image_def Let_def)
  qed
qed (use assms in \<open>simp_all add: pg_insert_image_def\<close>)

lemma metadata_create_Inl:
  assumes "metadata_create fl metadata w = (Inl e, w1)"
  shows "w1 = w"
proof -
  obtain r w' where p: "pg_insert_image fl (get_prop metadata ''name'') (get_prop metadata ''maskName'')
      (get_prop metadata ''path'') (get_prop metadata ''mime'') (get_prop metadata ''size'') w = (r, w')"
    by (cases "pg_insert_image fl (get_prop metadata ''name'') (get_prop metadata ''maskName'')
      (get_prop metadata ''path'') (get_prop metadata ''mime'') (get_prop metadata ''size'') w") blast
  show ?thesis
  proof (cases r)
    case (Inl a)
    then have "w' = w" using p pg_insert_image_Inl by blast
    then show ?thesis using assms p Inl
      by (simp add: metadata_create_def Let_def split: if_splits)
  next
    case (Inr rows)
    then have "rows \<noteq> []" using p pg_insert_image_Inr by blast
    then show ?thesis using assms p Inr
      by (cases rows) (simp_all add: metadata_create_def Let_def split: if_splits)
  qed
qed

lemma deleteFile_no_fault:
  "fs_unlink_fault fl filename = None \<Longrightarrow>
   deleteFile fl filename w =
     (Inr (uploads w filename \<noteq> None), w\<lparr>uploads := (uploads w)(filename := None)\<rparr>)"
  by (cases "uploads w filename") (simp_all add: deleteFile_def fs_unlink_def ENOENT_def fun_upd_idem)

lemma deleteFile_fault:
  "fs_unlink_fault fl filename = Some e \<Longrightarrow> code e \<noteq> Some ''ENOENT'' \<Longrightarrow>
   deleteFile fl filename w = (Inl e, w)"
  by (simp add: deleteFile_def fs_unlink_def)

lemma pg_upsert_queue_no_fault:
  "queue_upsert_fault fl filename = None \<Longrightarrow>
   snd (pg_upsert_queue fl filename w) =
      w\<lparr>cleanup_queue := queue_upserted filename (current_timestamp w) (cleanup_queue w)\<rparr>"
  by (simp add: pg_upsert_queue_def queue_upserted_def Let_def)

lemma queue_upserted_entry:
  "\<exists>r\<in>set (queue_upserted filename t q). q_name r = filename"
proof (cases "filename \<in> set (map q_name q)")
  case True
  then obtain r0 where r0: "r0 \<in> set q" "q_name r0 = filename" by auto
  let ?f = "\<lambda>r. if q_name r = filename then r\<lparr>q_fail_time := t, q_delete_state := False\<rparr> else r"
  have "?f r0 \<in> set (map ?f q)" using r0(1) by (rule imageI [of r0 "set q" ?f, folded set_map])
  moreover have "q_name (?f r0) = filename" using r0(2) by simp
  ultimately show ?thesis using True unfolding queue_upserted_def by (simp only: if_True) blast
next
  case False
  then show ?thesis by (simp add: queue_upserted_def)
qed

lemma queue_upserted_pending:
  assumes "r \<in> set (queue_upserted filename t q)" and "q_name r = filename"
  shows "q_delete_state r = False \<and> q_fail_time r = t"
proof (cases "filename \<in> set (map q_name q)")
  case True
  let ?f = "\<lambda>r. if q_name r = filename then r\<lparr>q_fail_time := t, q_delete_state := False\<rparr> else r"
  from assms(1) True have "r \<in> set (map ?f q)" by (simp add: queue_upserted_def)
  then obtain r0 where r0: "r0 \<in> set q" "r = ?f r0" by auto
  show ?thesis
  proof (cases "q_name r0 = filename")
    case True
    then show ?thesis using r0(2) by simp
  next
    case False
    then show ?thesis using r0(2) assms(2) by simp
  qed
next
  case False
  then have "r \<in> set q \<or> r = \<lparr>q_name = filename, q_fail_time = t, q_delete_state = False\<rparr>"
    using assms(1) by (auto simp add: queue_upserted_def)
  then show ?thesis
  proof
    assume "r \<in> set q"
    then show ?thesis using False assms(2) by auto
  next
    assume eq: "r = \<lparr>q_name = filename, q_fail_time = t, q_delete_state = False\<rparr>"
    have "q_delete_state r = False" by (subst eq) simp
    moreover have "q_fail_time r = t" by (subst eq) simp
    ultimately show ?thesis by simp
  qed
qed

lemma queue_add_world:
  "snd (queue_add fl filename w) = snd (pg_upsert_queue fl filename w)"
proof (cases "pg_upsert_queue fl filename w")
  case (Pair r w1)
  show ?thesis
  proof (cases r)
    case (Inl a)
    then show ?thesis using Pair by (simp add: queue_add_def)
  next
    case (Inr rows)
    then show ?thesis using Pair by (cases rows) (simp_all add: queue_add_def)
  qed
qed

lemma addToCleanupQueue_world:
  "addToCleanupQueue fl filename w = snd (pg_upsert_queue fl filename w)"
proof (cases "queue_add fl filename w")
  case (Pair r w1)
  then have "addToCleanupQueue fl filename w = w1"
    by (cases r) (simp_all add: addToCleanupQueue_def)
  then show ?thesis using Pair queue_add_world [of fl filename w] by simp
qed

lemma addToCleanupQueue_no_fault:
  "queue_upsert_fault fl filename = None \<Longrightarrow>
   addToCleanupQueue fl filename w =
     w\<lparr>cleanup_queue := queue_upserted filename (current_timestamp w) (cleanup_queue w)\<rparr>"
  by (simp add: addToCleanupQueue_world pg_upsert_queue_no_fault)

lemma addToCleanupQueue_fault:
  "queue_upsert_fault fl filename = Some e \<Longrightarrow> addToCleanupQueue fl filename w = w"
  by (simp add: addToCleanupQueue_world pg_upsert_queue_def)

lemma rollbackUpload_file_only:
  "rollbackUploadTransaction fl filename True False w =
     (case deleteFile fl filename w of
        (Inr _, w') \<Rightarrow> w'
      | (Inl fileError, w') \<Rightarrow> addToCleanupQueue fl filename w')"
  by (simp add: rollbackUploadTransaction_def)

text \<open>
  When the enqueue itself fails after a failed compensation, the failure is logged and
  goes no further: the caller still gets the error of the insert, the blob stays and the
  queue is as before.
\<close>

lemma upload_enqueue_failure_is_swallowed:
  assumes "saveFile fl fileBuffer filename w = (Inr sz, w1)"
      and "metadata_create fl metadata w1 = (Inl e, w2)"
      and "fs_unlink_fault fl filename = Some e1"
      and "code e1 \<noteq> Some ''ENOENT''"
      and "queue_upsert_fault fl filename = Some e2"
  shows "executeUploadTransaction fl fileBuffer filename metadata w
           = (Inl e, w\<lparr>uploads := (uploads w)(filename \<mapsto> fileBuffer)\<rparr>)"
proof -
  have w1: "w1 = w\<lparr>uploads := (uploads w)(filename \<mapsto> fileBuffer)\<rparr>"
    using saveFile_Inr [OF assms(1)] by simp
  have w2: "w2 = w1" using metadata_create_Inl [OF assms(2)] .
  show ?thesis
    using assms w1 w2
    by (simp add: executeUploadTransaction_def rollbackUpload_file_only deleteFile_fault
        addToCleanupQueue_fault)
qed

text \<open>
  Claim C1: in every upload in which the blob write succeeds and the metadata insert
  then fails with an error \<open>e\<close>, the error thrown to the caller is \<open>e\<close>, whatever the
  compensation does. If the blob can be unlinked, the world afterwards is the one before
  the upload with no blob under the name. If the unlink throws (an error other than
  absence), the world afterwards is the one that \<^verbatim>\<open>addToCleanupQueue\<close> leaves, with
  the blob still there; when the queue table takes the write, the queue holds an entry
  for the name, and every entry for the name is unresolved and stamped with the current
  time. (A failure of the enqueue itself is logged and swallowed by
  \<^verbatim>\<open>addToCleanupQueue\<close>: lemma \<open>upload_enqueue_failure_is_swallowed\<close>.)
\<close>

theorem upload_insert_failure_is_compensated:
  assumes save: "saveFile fl fileBuffer filename w = (Inr sz, w1)"
      and ins: "metadata_create fl metadata w1 = (Inl e, w2)"
  shows "fst (executeUploadTransaction fl fileBuffer filename metadata w) = Inl e
       \<and> (fs_unlink_fault fl filename = None \<longrightarrow>
            snd (executeUploadTransaction fl fileBuffer filename metadata w)
              = w\<lparr>uploads := (uploads w)(filename := None)\<rparr>)
       \<and> (\<forall>e'. fs_unlink_fault fl filename = Some e' \<and> code e' \<noteq> Some ''ENOENT'' \<longrightarrow>
            snd (executeUploadTransaction fl fileBuffer filename metadata w)
              = addToCleanupQueue fl filename (w\<lparr>uploads := (uploads w)(filename \<mapsto> fileBuffer)\<rparr>)
            \<and> (queue_upsert_fault fl filename = None \<longrightarrow>
                 (\<exists>r\<in>set (cleanup_queue (snd (executeUploadTransaction fl fileBuffer filename metadata w))).
                     q_name r = filename)
               \<and> (\<forall>r\<in>set (cleanup_queue (snd (executeUploadTransaction fl fileBuffer filename metadata w))).
                     q_name r = filename \<longrightarrow> q_delete_state r = False \<and> q_fail_time r = current_timestamp w)))"
proof -
  let ?w1 = "w\<lparr>uploads := (uploads w)(filename \<mapsto> fileBuffer)\<rparr>"
  have w1: "w1 = ?w1"
    using saveFile_Inr [OF save] by simp
  have w2: "w2 = w1" using metadata_create_Inl [OF ins] .
  have ex: "executeUploadTransaction fl fileBuffer filename metadata w
            = (Inl e, rollbackUploadTransaction fl filename True False ?w1)"
    using save ins w2 w1 by (simp add: executeUploadTransaction_def)
  have r1: "rollbackUploadTransaction fl filename True False ?w1 = w\<lparr>uploads := (uploads w)(filename := None)\<rparr>"
    if "fs_unlink_fault fl filename = None"
    using that by (simp add: rollbackUpload_file_only deleteFile_no_fault)
  have r2: "rollbackUploadTransaction fl filename True False ?w1 = addToCleanupQueue fl filename ?w1"
    if "fs_unlink_fault fl filename = Some e'" "code e' \<noteq> Some ''ENOENT''" for e'
    using that by (simp add: rollbackUpload_file_only deleteFile_fault)
  have q: "cleanup_queue (addToCleanupQueue fl filename ?w1)
             = queue_upserted filename (current_timestamp w) (cleanup_queue w)"
    if "queue_upsert_fault fl filename = None"
    using that by (simp add: addToCleanupQueue_no_fault)
  show ?thesis
  proof (intro conjI impI allI)
    show "fst (executeUploadTransaction fl fileBuffer filename metadata w) = Inl e"
      by (simp add: ex)
  next
    assume "fs_unlink_fault fl filename = None"
    then show "snd (executeUploadTransaction fl fileBuffer filename metadata w)
               = w\<lparr>uploads := (uploads w)(filename := None)\<rparr>"
      by (simp add: ex r1)
  next
    fix e' assume h: "fs_unlink_fault fl filename = Some e' \<and> code e' \<noteq> Some ''ENOENT''"
    then show s: "snd (executeUploadTransaction fl fileBuffer filename metadata w)
               = addToCleanupQueue fl filename ?w1"
      using r2 [of e'] by (simp add: ex)
    assume qf: "queue_upsert_fault fl filename = None"
    show "\<exists>r\<in>set (cleanup_queue (snd (executeUploadTransaction fl fileBuffer filename metadata w))).
             q_name r = filename"
      unfolding s q [OF qf] by (rule queue_upserted_entry)
    show "\<forall>r\<in>set (cleanup_queue (snd (executeUploadTransaction fl fileBuffer filename metadata w))).
             q_name r = filename \<longrightarrow> q_delete_state r = False \<and> q_fail_time r = current_timestamp w"
      unfolding s q [OF qf] using queue_upserted_pending by blast
  qed
qed

text \<open>
  The witness: an upload into the empty world whose insert loses the connection, once
  with a working unlink and once with the unlink denied.
\<close>

theorem upload_insert_failure_is_compensated_witness:
  "fst (executeUploadTransaction insert_fails png_bytes ''n.png'' example_metadata empty_world)
     = Inl (database_error connection_lost)
   \<and> snd (executeUploadTransaction insert_fails png_bytes ''n.png'' example_metadata empty_world)
     = empty_world
   \<and> fst (executeUploadTransaction unlink_and_insert_fail png_bytes ''n.png'' example_metadata
            empty_world)
     = Inl (database_error connection_lost)
   \<and> snd (executeUploadTransaction unlink_and_insert_fail png_bytes ''n.png'' example_metadata
            empty_world)
     = empty_world\<lparr>uploads := [''n.png'' \<mapsto> png_bytes],
         cleanup_queue := [\<lparr>q_name = ''n.png'', q_fail_time = 0, q_delete_state = False\<rparr>]\<rparr>
   \<and> (\<exists>r\<in>set (cleanup_queue (snd (executeUploadTransaction unlink_and_insert_fail png_bytes
          ''n.png'' example_metadata empty_world))). q_name r = ''n.png'')"
proof -
  let ?w1 = "empty_world\<lparr>uploads := (uploads empty_world)(''n.png'' \<mapsto> png_bytes)\<rparr>"
  have s1: "saveFile insert_fails png_bytes ''n.png'' empty_world = (Inr (length png_bytes), ?w1)"
    by (rule saveFile_no_fault) simp_all
  have c1: "metadata_create insert_fails example_metadata ?w1
            = (Inl (database_error connection_lost), ?w1)"
    by (rule metadata_create_insert_fault) simp
  have s2: "saveFile unlink_and_insert_fail png_bytes ''n.png'' empty_world
            = (Inr (length png_bytes), ?w1)"
    by (rule saveFile_no_fault) simp_all
  have c2: "metadata_create unlink_and_insert_fail example_metadata ?w1
            = (Inl (database_error connection_lost), ?w1)"
    by (rule metadata_create_insert_fault) simp
  have e: "code EACCES \<noteq> Some ''ENOENT''" by (simp add: EACCES_def)
  have idem: "empty_world\<lparr>uploads := (uploads empty_world)(''n.png'' := None)\<rparr> = empty_world"
    by (simp add: empty_world_def)
  have q: "addToCleanupQueue unlink_and_insert_fail ''n.png'' ?w1
           = empty_world\<lparr>uploads := [''n.png'' \<mapsto> png_bytes],
               cleanup_queue := [\<lparr>q_name = ''n.png'', q_fail_time = 0, q_delete_state = False\<rparr>]\<rparr>"
    by (simp add: addToCleanupQueue_no_fault queue_upserted_def empty_world_def)
  from upload_insert_failure_is_compensated [OF s1 c1]
       upload_insert_failure_is_compensated [OF s2 c2] e idem q
  show ?thesis by simp
qed

lemma metadata_findByName_no_fault:
  "db_select_fault fl filename = None \<Longrightarrow>
   metadata_findByName fl filename w = Inr (images_metadata w filename)"
  by (cases "images_metadata w filename") (simp_all add: metadata_findByName_def pg_select_image_def)

lemma metadata_delete_no_fault:
  "db_delete_fault fl filename = None \<Longrightarrow> images_metadata w filename = Some row \<Longrightarrow>
   metadata_delete fl filename w =
     (Inr row, w\<lparr>images_metadata := (images_metadata w)(filename := None)\<rparr>)"
  by (simp add: metadata_delete_def pg_delete_image_def)

text \<open>
  Claim C5: when the metadata row of a name exists and its blob is absent from the
  content store (and the select, the delete and the unlink do not fail for other
  reasons), the delete transaction succeeds: it returns the success result with the
  original row, and the world afterwards differs from the one before only in that the
  row is gone. The queue and the content store are as before: no compensation ran.
\<close>

theorem delete_with_missing_blob_succeeds:
  assumes "images_metadata w filename = Some row"
      and "uploads w filename = None"
      and "db_select_fault fl filename = None"
      and "db_delete_fault fl filename = None"
      and "fs_unlink_fault fl filename = None"
  shows "executeDeleteTransaction fl filename w =
           (Inr \<lparr>dt_success = True, dt_filename = filename, dt_originalMetadata = row\<rparr>,
            w\<lparr>images_metadata := (images_metadata w)(filename := None)\<rparr>)"
proof -
  let ?w1 = "w\<lparr>images_metadata := (images_metadata w)(filename := None)\<rparr>"
  have d: "deleteFile fl filename ?w1 = (Inr False, ?w1)"
    using assms(2,5) by (simp add: deleteFile_def fs_unlink_def ENOENT_def)
  show ?thesis
    using assms(1,3,4) d
    by (simp add: executeDeleteTransaction_def metadata_findByName_no_fault metadata_delete_no_fault)
qed

theorem delete_with_missing_blob_succeeds_witness:
  "executeDeleteTransaction no_faults ''a.png'' metadata_only_world =
     (Inr \<lparr>dt_success = True, dt_filename = ''a.png'', dt_originalMetadata = stored_row\<rparr>,
      metadata_only_world\<lparr>images_metadata := Map.empty\<rparr>)"
proof -
  have a: "images_metadata metadata_only_world ''a.png'' = Some stored_row"
    "uploads metadata_only_world ''a.png'' = None"
    by (simp_all add: metadata_only_world_def)
  have "executeDeleteTransaction no_faults ''a.png'' metadata_only_world =
     (Inr \<lparr>dt_success = True, dt_filename = ''a.png'', dt_originalMetadata = stored_row\<rparr>,
      metadata_only_world\<lparr>images_metadata := (images_metadata metadata_only_world)(''a.png'' := None)\<rparr>)"
    by (rule delete_with_missing_blob_succeeds [OF a]) simp_all
  then show ?thesis by (simp add: metadata_only_world_def)
qed

lemma get_prop_row_object:
  "get_prop (row_object row) ''name'' = Str (r_name row)"
  "get_prop (row_object row) ''maskName'' = Undefined"
  "get_prop (row_object row) ''path'' = r_path row"
  "get_prop (row_object row) ''mime'' = r_mime row"
  "get_prop (row_object row) ''size'' = r_size row"
  by (simp_all add: get_prop_def row_object_def)

lemma pg_insert_image_row_object:
  "pg_insert_image fl (Str n) Undefined v3 v4 v5 w =
     (let row = \<lparr>r_name = n, r_mask_name = Null, r_path = sql_value v3,
                 r_mime = sql_value v4, r_size = sql_value v5,
                 r_created_at = current_timestamp w\<rparr>
      in case db_insert_fault fl row of
           Some e \<Rightarrow> (Inl e, w)
         | None \<Rightarrow>
             (case images_metadata w n of
                Some _ \<Rightarrow> (Inl (JSError ''duplicate key value violates unique constraint''
                                 None (Some ''23505'')), w)
              | None \<Rightarrow> (Inr [row], w\<lparr>images_metadata := (images_metadata w)(n \<mapsto> row)\<rparr>)))"
  by (simp add: pg_insert_image_def sql_value_def)

lemma metadata_create_row_object_Inr:
  assumes "metadata_create fl (row_object row) w = (Inr r, w1)"
  shows "r = restored_row row (current_timestamp w)
       \<and> w1 = w\<lparr>images_metadata := (images_metadata w)(r_name row \<mapsto> restored_row row (current_timestamp w))\<rparr>"
proof -
  let ?r = "restored_row row (current_timestamp w)"
  have unf: "metadata_create fl (row_object row) w =
     (case (case pg_insert_image fl (Str (r_name row)) Undefined (r_path row) (r_mime row) (r_size row) w of
                 (Inl e, w1) \<Rightarrow> (Inl e, w1)
               | (Inr rows, w1) \<Rightarrow>
                   (case rows of
                      [] \<Rightarrow> (Inl (JSError ''Failed to create metadata record'' None None), w1)
                    | row # _ \<Rightarrow> (Inr row, w1))) of
           (Inr row, w1) \<Rightarrow> (Inr row, w1)
         | (Inl error, w1) \<Rightarrow>
             (if code error = Some ''23505''
              then (Inl (JSError ''File with this name already exists'' (Some 409) None), w1)
              else (Inl (database_error error), w1)))"
    by (simp add: metadata_create_def get_prop_row_object Let_def)
  show ?thesis
  proof (cases "db_insert_fault fl ?r")
    case (Some a)
    then show ?thesis using assms unfolding unf
      by (simp add: pg_insert_image_row_object restored_row_def Let_def split: if_splits)
  next
    case None
    then show ?thesis using assms unfolding unf
      by (cases "images_metadata w (r_name row)")
         (auto simp add: pg_insert_image_row_object restored_row_def Let_def split: if_splits)
  qed
qed

lemma executeDelete_unlink_fails:
  assumes "images_metadata w filename = Some row"
      and "db_select_fault fl filename = None"
      and "db_delete_fault fl filename = None"
      and "fs_unlink_fault fl filename = Some e1"
      and "code e1 \<noteq> Some ''ENOENT''"
  shows "executeDeleteTransaction fl filename w =
           executeDelete_catch fl filename e1 (Some row) True
             (w\<lparr>images_metadata := (images_metadata w)(filename := None)\<rparr>)"
  using assms
  by (simp add: executeDeleteTransaction_def metadata_findByName_no_fault
      metadata_delete_no_fault deleteFile_fault)

lemma delete_rollback_restores_row_without_mask_name:
  assumes "images_metadata w filename = Some row"
      and "r_name row = filename"
      and "db_select_fault fl filename = None"
      and "db_delete_fault fl filename = None"
      and "fs_unlink_fault fl filename = Some e1"
      and "code e1 \<noteq> Some ''ENOENT''"
      and "metadata_create fl (row_object row)
             (w\<lparr>images_metadata := (images_metadata w)(filename := None)\<rparr>) = (Inr r, w2)"
  shows "executeDeleteTransaction fl filename w =
           (Inl e1, w\<lparr>images_metadata :=
                        (images_metadata w)(filename \<mapsto> restored_row row (current_timestamp w))\<rparr>)"
proof -
  let ?w1 = "w\<lparr>images_metadata := (images_metadata w)(filename := None)\<rparr>"
  have "w2 = ?w1\<lparr>images_metadata := (images_metadata ?w1)(r_name row \<mapsto> restored_row row (current_timestamp ?w1))\<rparr>"
    using metadata_create_row_object_Inr [OF assms(7)] by simp
  then have w2: "w2 = w\<lparr>images_metadata := (images_metadata w)(filename \<mapsto> restored_row row (current_timestamp w))\<rparr>"
    using assms(2) by simp
  show ?thesis
    unfolding executeDelete_unlink_fails [OF assms(1,3,4,5,6)]
    using assms(7) w2
    by (simp add: executeDelete_catch_def rollbackDeleteTransaction_def)
qed

text \<open>
  Claim C2 (after a failed blob deletion and a successful re-insert, the metadata store
  holds a record equal to the one read before the deletion, display name included) does
  not hold of the code. The original error is thrown, as the claim says, but the row
  written back has lost its display name: the re-insert hands the row read from the
  table, whose display name is under the key \<^verbatim>\<open>mask_name\<close>, to \<^verbatim>\<open>create\<close>,
  which reads \<^verbatim>\<open>maskName\<close>. For the stored file \<^verbatim>\<open>a.png\<close> and a denied
  unlink:
\<close>

theorem delete_rollback_loses_display_name:
  "executeDeleteTransaction unlink_denied ''a.png'' stored_world =
     (Inl EACCES,
      stored_world\<lparr>images_metadata :=
        [''a.png'' \<mapsto> \<lparr>r_name = ''a.png'', r_mask_name = Null, r_path = Str ''/uploads/a.png'',
                       r_mime = Str ''image/png'', r_size = Num 4, r_created_at = 2\<rparr>]\<rparr>)
   \<and> images_metadata stored_world ''a.png'' =
       Some \<lparr>r_name = ''a.png'', r_mask_name = Str ''photo.png'', r_path = Str ''/uploads/a.png'',
             r_mime = Str ''image/png'', r_size = Num 4, r_created_at = 1\<rparr>"
proof -
  let ?w1 = "stored_world\<lparr>images_metadata := (images_metadata stored_world)(''a.png'' := None)\<rparr>"
  have a1: "images_metadata stored_world ''a.png'' = Some stored_row"
    by (simp add: stored_world_def)
  have a2: "r_name stored_row = ''a.png''" by (simp add: stored_row_def)
  have a3: "db_select_fault unlink_denied ''a.png'' = None"
    "db_delete_fault unlink_denied ''a.png'' = None"
    "fs_unlink_fault unlink_denied ''a.png'' = Some EACCES"
    "code EACCES \<noteq> Some ''ENOENT''"
    by (simp_all add: unlink_denied_def EACCES_def)
  have a4: "metadata_create unlink_denied (row_object stored_row) ?w1
         = (Inr (restored_row stored_row 2),
            ?w1\<lparr>images_metadata := (images_metadata ?w1)(''a.png'' \<mapsto> restored_row stored_row 2)\<rparr>)"
    by (simp add: metadata_create_def get_prop_row_object pg_insert_image_row_object
        restored_row_def unlink_denied_def stored_world_def stored_row_def Let_def)
  have "executeDeleteTransaction unlink_denied ''a.png'' stored_world =
          (Inl EACCES, stored_world\<lparr>images_metadata :=
              (images_metadata stored_world)(''a.png'' \<mapsto> restored_row stored_row (current_timestamp stored_world))\<rparr>)"
    using a1 a2 a3 a4 by (rule delete_rollback_restores_row_without_mask_name)
  then show ?thesis
    by (simp add: stored_world_def restored_row_def stored_row_def sql_value_def)
qed

text \<open>
  Claim C3: when the row was found and deleted, the unlink of the blob throws an error
  \<open>e1\<close> other than absence, and the compensating re-insert throws as well, the
  transaction throws the critical error, not \<open>e1\<close>, and the world afterwards is the one
  that \<^verbatim>\<open>addToCleanupQueue\<close> leaves, with the row gone; when the queue table takes
  the write, the queue holds an entry for the name, and every entry for the name is
  unresolved. The critical error differs from the two not-found errors, from every
  database error and from every storage error, and from every error that carries no
  status code, as those of the file system.
\<close>

theorem delete_double_failure_is_critical:
  assumes "images_metadata w filename = Some row"
      and "db_select_fault fl filename = None"
      and "db_delete_fault fl filename = None"
      and "fs_unlink_fault fl filename = Some e1"
      and "code e1 \<noteq> Some ''ENOENT''"
      and "metadata_create fl (row_object row)
             (w\<lparr>images_metadata := (images_metadata w)(filename := None)\<rparr>) = (Inl e2, w2)"
  shows "executeDeleteTransaction fl filename w =
           (Inl criticalError,
            addToCleanupQueue fl filename (w\<lparr>images_metadata := (images_metadata w)(filename := None)\<rparr>))
       \<and> (queue_upsert_fault fl filename = None \<longrightarrow>
            (\<exists>r\<in>set (cleanup_queue (snd (executeDeleteTransaction fl filename w))). q_name r = filename)
          \<and> (\<forall>r\<in>set (cleanup_queue (snd (executeDeleteTransaction fl filename w))).
                q_name r = filename \<longrightarrow> q_delete_state r = False \<and> q_fail_time r = current_timestamp w))
       \<and> (criticalError \<noteq> e1 \<longrightarrow> fst (executeDeleteTransaction fl filename w) \<noteq> Inl e1)
       \<and> criticalError \<noteq> JSError ''File not found in database'' (Some 404) None
       \<and> criticalError \<noteq> JSError ''File not found'' (Some 404) None
       \<and> (\<forall>x. criticalError \<noteq> database_error x)
       \<and> (\<forall>x. criticalError \<noteq> JSError (''File storage failed: '' @ x) (Some 500) None)
       \<and> (statusCode e1 = None \<longrightarrow> criticalError \<noteq> e1)"
proof -
  let ?w1 = "w\<lparr>images_metadata := (images_metadata w)(filename := None)\<rparr>"
  have w2: "w2 = ?w1" using metadata_create_Inl [OF assms(6)] .
  have ex: "executeDeleteTransaction fl filename w = (Inl criticalError, addToCleanupQueue fl filename ?w1)"
    unfolding executeDelete_unlink_fails [OF assms(1,2,3,4,5)]
    using assms(6) w2
    by (simp add: executeDelete_catch_def rollbackDeleteTransaction_def)
  have q: "cleanup_queue (addToCleanupQueue fl filename ?w1)
             = queue_upserted filename (current_timestamp w) (cleanup_queue w)"
    if "queue_upsert_fault fl filename = None"
    using that by (simp add: addToCleanupQueue_no_fault)
  have d1: "criticalError \<noteq> JSError ''File not found in database'' (Some 404) None"
    by (simp add: criticalError_def)
  have d2: "criticalError \<noteq> JSError ''File not found'' (Some 404) None"
    by (simp add: criticalError_def)
  have d3: "criticalError \<noteq> database_error x" for x
    by (simp add: criticalError_def database_error_def)
  have d4: "criticalError \<noteq> JSError (''File storage failed: '' @ x) (Some 500) None" for x
    by (simp add: criticalError_def)
  have d5: "statusCode e1 = None \<longrightarrow> criticalError \<noteq> e1"
    by (auto simp: criticalError_def)
  show ?thesis
  proof (intro conjI impI allI)
    show "executeDeleteTransaction fl filename w = (Inl criticalError, addToCleanupQueue fl filename ?w1)"
      by (rule ex)
  next
    assume qf: "queue_upsert_fault fl filename = None"
    show "\<exists>r\<in>set (cleanup_queue (snd (executeDeleteTransaction fl filename w))). q_name r = filename"
      unfolding ex snd_conv q [OF qf] by (rule queue_upserted_entry)
    show "\<forall>r\<in>set (cleanup_queue (snd (executeDeleteTransaction fl filename w))).
                q_name r = filename \<longrightarrow> q_delete_state r = False \<and> q_fail_time r = current_timestamp w"
      unfolding ex snd_conv q [OF qf] using queue_upserted_pending by blast
  next
    assume "criticalError \<noteq> e1"
    then show "fst (executeDeleteTransaction fl filename w) \<noteq> Inl e1" by (simp add: ex)
  next
    assume "statusCode e1 = None" then show "criticalError \<noteq> e1" using d5 by simp
  qed (rule d1 d2 d3 d4)+
qed

theorem delete_double_failure_is_critical_witness:
  "executeDeleteTransaction unlink_and_insert_fail ''a.png'' stored_world =
     (Inl criticalError,
      stored_world\<lparr>images_metadata := Map.empty,
        cleanup_queue := [\<lparr>q_name = ''a.png'', q_fail_time = 2, q_delete_state = False\<rparr>]\<rparr>)
   \<and> criticalError \<noteq> EACCES"
proof -
  let ?w1 = "stored_world\<lparr>images_metadata := (images_metadata stored_world)(''a.png'' := None)\<rparr>"
  have a1: "images_metadata stored_world ''a.png'' = Some stored_row"
    by (simp add: stored_world_def)
  have e: "code EACCES \<noteq> Some ''ENOENT''" by (simp add: EACCES_def)
  have c: "metadata_create unlink_and_insert_fail (row_object stored_row) ?w1
           = (Inl (database_error connection_lost), ?w1)"
    by (simp add: metadata_create_def get_prop_row_object pg_insert_image_row_object
        connection_lost_def Let_def)
  have q: "addToCleanupQueue unlink_and_insert_fail ''a.png'' ?w1
           = stored_world\<lparr>images_metadata := Map.empty,
               cleanup_queue := [\<lparr>q_name = ''a.png'', q_fail_time = 2, q_delete_state = False\<rparr>]\<rparr>"
    by (simp add: addToCleanupQueue_no_fault queue_upserted_def stored_world_def)
  have s: "statusCode EACCES = None" by (simp add: EACCES_def)
  from delete_double_failure_is_critical [of stored_world "''a.png''" stored_row
         unlink_and_insert_fail EACCES "database_error connection_lost" ?w1, OF a1 _ _ _ e c] q s
  show ?thesis by simp
qed

lemma queue_add_no_fault:
  "queue_upsert_fault fl filename = None \<Longrightarrow>
   snd (queue_add fl filename w) =
     w\<lparr>cleanup_queue := queue_upserted filename (current_timestamp w) (cleanup_queue w)\<rparr>"
  by (simp add: queue_add_world pg_upsert_queue_no_fault)

lemma queue_upserted_names_present:
  "filename \<in> set (map q_name q) \<Longrightarrow> map q_name (queue_upserted filename t q) = map q_name q"
  by (simp add: queue_upserted_def)

lemma queue_upserted_names_absent:
  "filename \<notin> set (map q_name q) \<Longrightarrow>
   map q_name (queue_upserted filename t q) = map q_name q @ [filename]"
  by (simp add: queue_upserted_def)

lemma queue_upserted_distinct:
  assumes "distinct (map q_name q)"
  shows "distinct (map q_name (queue_upserted filename t q))"
proof (cases "filename \<in> set (map q_name q)")
  case True
  then show ?thesis using assms by (simp add: queue_upserted_names_present)
next
  case False
  then show ?thesis using assms by (simp add: queue_upserted_names_absent)
qed

lemma length_filter_distinct_key:
  "distinct (map f xs) \<Longrightarrow> k \<in> set (map f xs) \<Longrightarrow> length (filter (\<lambda>r. f r = k) xs) = 1"
proof (induction xs)
  case Nil
  then show ?case by simp
next
  case (Cons x xs)
  show ?case
  proof (cases "f x = k")
    case True
    then have "k \<notin> set (map f xs)" using Cons.prems(1) by auto
    then have "filter (\<lambda>r. f r = k) xs = []" by (auto simp: filter_empty_conv)
    then show ?thesis using True by simp
  next
    case False
    then show ?thesis using Cons by auto
  qed
qed

lemma filter_names_queue_upserted:
  "filter (\<lambda>r. q_name r = filename) (queue_upserted filename t q)
   = map (\<lambda>r. r\<lparr>q_fail_time := t, q_delete_state := False\<rparr>) (filter (\<lambda>r. q_name r = filename) q)
     @ (if filename \<in> set (map q_name q) then [] else [\<lparr>q_name = filename, q_fail_time = t, q_delete_state = False\<rparr>])"
proof (cases "filename \<in> set (map q_name q)")
  case True
  have "filter (\<lambda>r. q_name r = filename)
          (map (\<lambda>r. if q_name r = filename then r\<lparr>q_fail_time := t, q_delete_state := False\<rparr> else r) xs)
        = map (\<lambda>r. r\<lparr>q_fail_time := t, q_delete_state := False\<rparr>) (filter (\<lambda>r. q_name r = filename) xs)" for xs
    by (induction xs) simp_all
  then show ?thesis using True by (simp add: queue_upserted_def)
next
  case False
  then have "filter (\<lambda>r. q_name r = filename) q = []" by (auto simp: filter_empty_conv)
  then show ?thesis using False by (simp add: queue_upserted_def)
qed

lemma queue_upserted_others:
  assumes "r \<in> set (queue_upserted filename t q)" and "q_name r \<noteq> filename"
  shows "r \<in> set q"
proof (cases "filename \<in> set (map q_name q)")
  case True
  let ?f = "\<lambda>r. if q_name r = filename then r\<lparr>q_fail_time := t, q_delete_state := False\<rparr> else r"
  from assms(1) True have "r \<in> set (map ?f q)" by (simp add: queue_upserted_def)
  then obtain r0 where r0: "r0 \<in> set q" "r = ?f r0" by auto
  show ?thesis
  proof (cases "q_name r0 = filename")
    case True
    then show ?thesis using r0(2) assms(2) by simp
  next
    case False
    then show ?thesis using r0 by simp
  qed
next
  case False
  then have "r \<in> set q \<or> r = \<lparr>q_name = filename, q_fail_time = t, q_delete_state = False\<rparr>"
    using assms(1) by (auto simp add: queue_upserted_def)
  then show ?thesis
  proof
    assume eq: "r = \<lparr>q_name = filename, q_fail_time = t, q_delete_state = False\<rparr>"
    have "q_name r = filename" by (subst eq) simp
    then show ?thesis using assms(2) by simp
  qed
qed

lemma queue_upserted_twice:
  "queue_upserted filename t2 (queue_upserted filename t1 q) = queue_upserted filename t2 q"
proof (cases "filename \<in> set (map q_name q)")
  case True
  let ?f1 = "\<lambda>r. if q_name r = filename then r\<lparr>q_fail_time := t1, q_delete_state := False\<rparr> else r"
  let ?f2 = "\<lambda>r. if q_name r = filename then r\<lparr>q_fail_time := t2, q_delete_state := False\<rparr> else r"
  have q1: "queue_upserted filename t1 q = map ?f1 q"
    using True by (simp add: queue_upserted_def)
  have "filename \<in> set (map q_name (queue_upserted filename t1 q))"
    using True queue_upserted_names_present [OF True, of t1] by simp
  then have "queue_upserted filename t2 (queue_upserted filename t1 q) = map ?f2 (map ?f1 q)"
    unfolding q1 by (simp add: queue_upserted_def)
  also have "\<dots> = map ?f2 q" by (induction q) simp_all
  also have "\<dots> = queue_upserted filename t2 q" using True by (simp add: queue_upserted_def)
  finally show ?thesis .
next
  case False
  let ?f2 = "\<lambda>r. if q_name r = filename then r\<lparr>q_fail_time := t2, q_delete_state := False\<rparr> else r"
  have q1: "queue_upserted filename t1 q = q @ [\<lparr>q_name = filename, q_fail_time = t1, q_delete_state = False\<rparr>]"
    using False by (simp add: queue_upserted_def)
  have "queue_upserted filename t2 (queue_upserted filename t1 q)
      = map ?f2 (q @ [\<lparr>q_name = filename, q_fail_time = t1, q_delete_state = False\<rparr>])"
    unfolding q1 by (simp add: queue_upserted_def)
  also have "\<dots> = map ?f2 q @ [\<lparr>q_name = filename, q_fail_time = t2, q_delete_state = False\<rparr>]"
    by simp
  also have "map ?f2 q = q" using False by (induction q) auto
  finally show ?thesis using False by (simp add: queue_upserted_def)
qed

lemma queue_upserted_modulo_time:
  "map (\<lambda>r. (q_name r, q_delete_state r)) (queue_upserted filename t1 q)
   = map (\<lambda>r. (q_name r, q_delete_state r)) (queue_upserted filename t2 q)"
  by (simp add: queue_upserted_def)

lemma queue_world_names:
  "map q_name (cleanup_queue queue_world) = [''orphan.png'', ''ok.png'', ''old.png'', ''lost.png'']"
  by (simp add: queue_world_def)

text \<open>
  Claim C8: \<^verbatim>\<open>add\<close> is an upsert keyed by the name. When the queue table takes the
  write: if the name is in the queue (whose names are unique), the queue afterwards has
  the same names in the same order, so no row was added, exactly one row has the name,
  that row carries the current time and is unresolved, and every other row is a row of
  the queue before. Adding the name a second time, at any time \<open>t\<close>, gives the queue
  that adding it once at \<open>t\<close> gives, and the same names and states as adding it once.
\<close>

theorem queue_add_is_upsert_by_name:
  assumes nf: "queue_upsert_fault fl filename = None"
  shows "(filename \<in> set (map q_name (cleanup_queue w)) \<and> distinct (map q_name (cleanup_queue w)) \<longrightarrow>
            map q_name (cleanup_queue (snd (queue_add fl filename w))) = map q_name (cleanup_queue w)
          \<and> length (filter (\<lambda>r. q_name r = filename) (cleanup_queue (snd (queue_add fl filename w)))) = 1
          \<and> (\<forall>r\<in>set (cleanup_queue (snd (queue_add fl filename w))).
                q_name r = filename \<longrightarrow> q_fail_time r = current_timestamp w \<and> q_delete_state r = False)
          \<and> (\<forall>r\<in>set (cleanup_queue (snd (queue_add fl filename w))).
                q_name r \<noteq> filename \<longrightarrow> r \<in> set (cleanup_queue w)))
       \<and> (\<forall>t. cleanup_queue (snd (queue_add fl filename (snd (queue_add fl filename w)\<lparr>current_timestamp := t\<rparr>)))
              = cleanup_queue (snd (queue_add fl filename (w\<lparr>current_timestamp := t\<rparr>))))
       \<and> (\<forall>t. map (\<lambda>r. (q_name r, q_delete_state r))
                (cleanup_queue (snd (queue_add fl filename (snd (queue_add fl filename w)\<lparr>current_timestamp := t\<rparr>))))
              = map (\<lambda>r. (q_name r, q_delete_state r)) (cleanup_queue (snd (queue_add fl filename w))))"
proof -
  let ?q = "cleanup_queue w"
  have q1: "cleanup_queue (snd (queue_add fl filename w)) = queue_upserted filename (current_timestamp w) ?q"
    by (simp add: queue_add_no_fault [OF nf])
  have q2: "cleanup_queue (snd (queue_add fl filename (snd (queue_add fl filename w)\<lparr>current_timestamp := t\<rparr>)))
            = queue_upserted filename t ?q" for t
    by (simp add: queue_add_no_fault [OF nf] queue_upserted_twice)
  have q3: "cleanup_queue (snd (queue_add fl filename (w\<lparr>current_timestamp := t\<rparr>)))
            = queue_upserted filename t ?q" for t
    by (simp add: queue_add_no_fault [OF nf])
  show ?thesis
  proof (intro conjI impI allI)
    assume h: "filename \<in> set (map q_name ?q) \<and> distinct (map q_name ?q)"
    show n: "map q_name (cleanup_queue (snd (queue_add fl filename w))) = map q_name ?q"
      unfolding q1 using h by (simp add: queue_upserted_names_present)
    have "distinct (map q_name (cleanup_queue (snd (queue_add fl filename w))))"
      unfolding n using h by simp
    moreover have "filename \<in> set (map q_name (cleanup_queue (snd (queue_add fl filename w))))"
      unfolding n using h by simp
    ultimately show "length (filter (\<lambda>r. q_name r = filename) (cleanup_queue (snd (queue_add fl filename w)))) = 1"
      by (rule length_filter_distinct_key)
    show "\<forall>r\<in>set (cleanup_queue (snd (queue_add fl filename w))).
                q_name r = filename \<longrightarrow> q_fail_time r = current_timestamp w \<and> q_delete_state r = False"
      unfolding q1 using queue_upserted_pending by blast
    show "\<forall>r\<in>set (cleanup_queue (snd (queue_add fl filename w))).
                q_name r \<noteq> filename \<longrightarrow> r \<in> set (cleanup_queue w)"
      unfolding q1 using queue_upserted_others by blast
  next
    fix t
    show "cleanup_queue (snd (queue_add fl filename (snd (queue_add fl filename w)\<lparr>current_timestamp := t\<rparr>)))
              = cleanup_queue (snd (queue_add fl filename (w\<lparr>current_timestamp := t\<rparr>)))"
      unfolding q2 q3 ..
    show "map (\<lambda>r. (q_name r, q_delete_state r))
                (cleanup_queue (snd (queue_add fl filename (snd (queue_add fl filename w)\<lparr>current_timestamp := t\<rparr>))))
              = map (\<lambda>r. (q_name r, q_delete_state r)) (cleanup_queue (snd (queue_add fl filename w)))"
      unfolding q2 q1 by (rule queue_upserted_modulo_time)
  qed
qed

text \<open>The witness: the entry resolved earlier is added again at time 40, and once more at 50.\<close>

theorem queue_add_is_upsert_by_name_witness:
  "map q_name (cleanup_queue (snd (queue_add no_faults ''old.png'' queue_world)))
     = [''orphan.png'', ''ok.png'', ''old.png'', ''lost.png'']
   \<and> length (filter (\<lambda>r. q_name r = ''old.png'')
         (cleanup_queue (snd (queue_add no_faults ''old.png'' queue_world)))) = 1
   \<and> \<lparr>q_name = ''old.png'', q_fail_time = 40, q_delete_state = False\<rparr>
       \<in> set (cleanup_queue (snd (queue_add no_faults ''old.png'' queue_world)))
   \<and> cleanup_queue (snd (queue_add no_faults ''old.png''
         (snd (queue_add no_faults ''old.png'' queue_world)\<lparr>current_timestamp := 50\<rparr>)))
     = cleanup_queue (snd (queue_add no_faults ''old.png'' (queue_world\<lparr>current_timestamp := 50\<rparr>)))
   \<and> map (\<lambda>r. (q_name r, q_delete_state r))
         (cleanup_queue (snd (queue_add no_faults ''old.png''
            (snd (queue_add no_faults ''old.png'' queue_world)\<lparr>current_timestamp := 50\<rparr>))))
     = [(''orphan.png'', False), (''ok.png'', False), (''old.png'', False), (''lost.png'', False)]"
proof -
  have nf: "queue_upsert_fault no_faults ''old.png'' = None" by simp
  have pres: "''old.png'' \<in> set (map q_name (cleanup_queue queue_world))"
    by (simp add: queue_world_names)
  have dist: "distinct (map q_name (cleanup_queue queue_world))"
    by (simp add: queue_world_names)
  have once: "cleanup_queue (snd (queue_add no_faults ''old.png'' queue_world)) =
        [\<lparr>q_name = ''orphan.png'', q_fail_time = 10, q_delete_state = False\<rparr>,
         \<lparr>q_name = ''ok.png'', q_fail_time = 20, q_delete_state = False\<rparr>,
         \<lparr>q_name = ''old.png'', q_fail_time = 40, q_delete_state = False\<rparr>,
         \<lparr>q_name = ''lost.png'', q_fail_time = 30, q_delete_state = False\<rparr>]"
    by (simp add: queue_add_no_fault queue_upserted_def queue_world_def)
  note T = queue_add_is_upsert_by_name [OF nf, of queue_world]
  from T pres dist
  have A: "map q_name (cleanup_queue (snd (queue_add no_faults ''old.png'' queue_world)))
             = map q_name (cleanup_queue queue_world)"
    and B: "length (filter (\<lambda>r. q_name r = ''old.png'')
              (cleanup_queue (snd (queue_add no_faults ''old.png'' queue_world)))) = 1"
    by blast+
  from T have "\<forall>t. cleanup_queue (snd (queue_add no_faults ''old.png''
                  (snd (queue_add no_faults ''old.png'' queue_world)\<lparr>current_timestamp := t\<rparr>)))
              = cleanup_queue (snd (queue_add no_faults ''old.png'' (queue_world\<lparr>current_timestamp := t\<rparr>)))"
    by blast
  then have C: "cleanup_queue (snd (queue_add no_faults ''old.png''
                  (snd (queue_add no_faults ''old.png'' queue_world)\<lparr>current_timestamp := 50\<rparr>)))
              = cleanup_queue (snd (queue_add no_faults ''old.png'' (queue_world\<lparr>current_timestamp := 50\<rparr>)))"
    by (rule spec)
  from T have "\<forall>t. map (\<lambda>r. (q_name r, q_delete_state r))
         (cleanup_queue (snd (queue_add no_faults ''old.png''
            (snd (queue_add no_faults ''old.png'' queue_world)\<lparr>current_timestamp := t\<rparr>))))
       = map (\<lambda>r. (q_name r, q_delete_state r))
           (cleanup_queue (snd (queue_add no_faults ''old.png'' queue_world)))"
    by blast
  then have D: "map (\<lambda>r. (q_name r, q_delete_state r))
         (cleanup_queue (snd (queue_add no_faults ''old.png''
            (snd (queue_add no_faults ''old.png'' queue_world)\<lparr>current_timestamp := 50\<rparr>))))
       = map (\<lambda>r. (q_name r, q_delete_state r))
           (cleanup_queue (snd (queue_add no_faults ''old.png'' queue_world)))"
    by (rule spec)
  have E: "\<lparr>q_name = ''old.png'', q_fail_time = 40, q_delete_state = False\<rparr>
       \<in> set (cleanup_queue (snd (queue_add no_faults ''old.png'' queue_world)))"
    by (simp add: once)
  have F: "map (\<lambda>r. (q_name r, q_delete_state r))
           (cleanup_queue (snd (queue_add no_faults ''old.png'' queue_world)))
        = [(''orphan.png'', False), (''ok.png'', False), (''old.png'', False), (''lost.png'', False)]"
    by (simp add: once)
  show ?thesis
    using A B C D E F by (simp only: queue_world_names)
qed

lemma fileExists_no_fault:
  "fs_access_fault fl n = None \<Longrightarrow> fileExists fl n w = (uploads w n \<noteq> None)"
  by (cases "uploads w n") (simp_all add: fileExists_def fs_access_def)

lemma queue_markAsProcessed_no_fault:
  "queue_update_fault fl n = None \<Longrightarrow>
   \<exists>x. queue_markAsProcessed fl n b w = (Inr x, w\<lparr>cleanup_queue := queue_marked n b (cleanup_queue w)\<rparr>)"
  by (cases "filter (\<lambda>r. q_name r = n) (queue_marked n b (cleanup_queue w))")
     (simp_all add: queue_markAsProcessed_def pg_update_queue_def queue_marked_def Let_def)

lemma processCleanupItem_try_no_fault:
  assumes "db_select_fault fl (q_name item) = None"
      and "fs_access_fault fl (q_name item) = None"
      and "fs_unlink_fault fl (q_name item) = None"
      and "queue_update_fault fl (q_name item) = None"
  shows "processCleanupItem_try fl item w = (Inr (), step_world w (q_name item))"
proof -
  let ?n = "q_name item"
  show ?thesis
  proof (cases "images_metadata w ?n")
    case None
    show ?thesis
    proof (cases "uploads w ?n")
      case n2: None
      obtain x where x: "queue_markAsProcessed fl ?n True w = (Inr x, w\<lparr>cleanup_queue := queue_marked ?n True (cleanup_queue w)\<rparr>)"
        using queue_markAsProcessed_no_fault [OF assms(4)] by blast
      show ?thesis using None n2 assms x
        by (simp add: processCleanupItem_try_def metadata_findByName_no_fault fileExists_no_fault
            step_world_def stores_agree_def fun_upd_idem)
    next
      case (Some b)
      let ?w1 = "w\<lparr>uploads := (uploads w)(?n := None)\<rparr>"
      obtain x where x: "queue_markAsProcessed fl ?n True ?w1 = (Inr x, ?w1\<lparr>cleanup_queue := queue_marked ?n True (cleanup_queue ?w1)\<rparr>)"
        using queue_markAsProcessed_no_fault [OF assms(4)] by blast
      show ?thesis using None Some assms x
        by (simp add: processCleanupItem_try_def metadata_findByName_no_fault fileExists_no_fault
            deleteFile_no_fault step_world_def stores_agree_def)
    qed
  next
    case (Some row)
    obtain x where x: "queue_markAsProcessed fl ?n (uploads w ?n \<noteq> None) w
         = (Inr x, w\<lparr>cleanup_queue := queue_marked ?n (uploads w ?n \<noteq> None) (cleanup_queue w)\<rparr>)"
      using queue_markAsProcessed_no_fault [OF assms(4)] by blast
    show ?thesis
    proof (cases "uploads w ?n")
      case None
      then show ?thesis using Some assms x
        by (simp add: processCleanupItem_try_def metadata_findByName_no_fault fileExists_no_fault
            step_world_def stores_agree_def)
    next
      case s2: (Some b)
      then show ?thesis using Some assms x
        by (simp add: processCleanupItem_try_def metadata_findByName_no_fault fileExists_no_fault
            step_world_def stores_agree_def)
    qed
  qed
qed

lemma processCleanupItems_no_fault:
  assumes "\<forall>n. db_select_fault fl n = None"
      and "\<forall>n. fs_access_fault fl n = None"
      and "\<forall>n. fs_unlink_fault fl n = None"
      and "\<forall>n. queue_update_fault fl n = None"
  shows "processCleanupItems fl items c w
           = (Inr (c + length items), foldl step_world w (map q_name items))"
proof (induction items arbitrary: c w)
  case Nil
  then show ?case by simp
next
  case (Cons item items)
  have "processCleanupItem_try fl item w = (Inr (), step_world w (q_name item))"
    using assms by (simp add: processCleanupItem_try_no_fault)
  then show ?case using Cons.IH [of "c + 1" "step_world w (q_name item)"] by simp
qed

lemma step_world_metadata [simp]: "images_metadata (step_world w n) = images_metadata w"
  by (simp add: step_world_def)

lemma step_world_uploads:
  "uploads (step_world w n) m
     = (if m = n \<and> images_metadata w n = None then None else uploads w m)"
  by (simp add: step_world_def)

lemma step_world_queue:
  "cleanup_queue (step_world w n) = queue_marked n (stores_agree w n) (cleanup_queue w)"
  by (simp add: step_world_def)

lemma stores_agree_step_world [simp]: "stores_agree (step_world w n) m = stores_agree w m"
  by (auto simp: stores_agree_def step_world_uploads)

lemma foldl_step_world_metadata [simp]:
  "images_metadata (foldl step_world w ns) = images_metadata w"
  by (induction ns arbitrary: w) simp_all

lemma foldl_step_world_uploads:
  "uploads (foldl step_world w ns) m
     = (if m \<in> set ns \<and> images_metadata w m = None then None else uploads w m)"
  by (induction ns arbitrary: w) (auto simp: step_world_uploads)

lemma foldl_step_world_queue:
  "cleanup_queue (foldl step_world w ns)
     = map (\<lambda>r. if q_name r \<in> set ns then r\<lparr>q_delete_state := stores_agree w (q_name r)\<rparr> else r)
         (cleanup_queue w)"
proof (induction ns arbitrary: w)
  case Nil
  then show ?case by (simp add: map_idI)
next
  case (Cons n ns)
  have "cleanup_queue (foldl step_world w (n # ns))
        = map (\<lambda>r. if q_name r \<in> set ns then r\<lparr>q_delete_state := stores_agree w (q_name r)\<rparr> else r)
            (queue_marked n (stores_agree w n) (cleanup_queue w))"
    using Cons.IH [of "step_world w n"] by (simp add: step_world_queue)
  also have "\<dots> = map (\<lambda>r. if q_name r \<in> set (n # ns) then r\<lparr>q_delete_state := stores_agree w (q_name r)\<rparr> else r)
            (cleanup_queue w)"
    by (simp add: queue_marked_def)
  finally show ?case .
qed

lemma pending_subset:
  "set (take k (sort_key q_fail_time (filter P q))) \<subseteq> set q"
proof -
  have "set (take k (sort_key q_fail_time (filter P q))) \<subseteq> set (sort_key q_fail_time (filter P q))"
    by (rule set_take_subset)
  then show ?thesis by auto
qed

text \<open>
  Claim C4: run the queue processor when no query and no file-system call fails, and take
  any pending entry that it reads. All entries read are processed, and the queue afterwards
  still has an entry for the name. If the name has no metadata row, its blob is absent
  afterwards and every entry for the name is marked resolved, whether or not a blob was
  there. If the row exists and the blob exists, every entry for the name is marked
  resolved. If the row exists and the blob is absent, every entry for the name is left
  unresolved.
\<close>

theorem processCleanupQueue_decides_each_entry:
  assumes "queue_select_fault fl = None"
      and "\<forall>n. db_select_fault fl n = None"
      and "\<forall>n. fs_access_fault fl n = None"
      and "\<forall>n. fs_unlink_fault fl n = None"
      and "\<forall>n. queue_update_fault fl n = None"
      and "queue_getPending fl 100 w = Inr pending"
      and "item \<in> set pending"
  shows "fst (processCleanupQueue fl w) = Inr (length pending)
       \<and> (\<exists>r\<in>set (cleanup_queue (snd (processCleanupQueue fl w))). q_name r = q_name item)
       \<and> (images_metadata w (q_name item) = None \<longrightarrow>
            uploads (snd (processCleanupQueue fl w)) (q_name item) = None
          \<and> (\<forall>r\<in>set (cleanup_queue (snd (processCleanupQueue fl w))).
                q_name r = q_name item \<longrightarrow> q_delete_state r = True))
       \<and> (images_metadata w (q_name item) \<noteq> None \<and> uploads w (q_name item) \<noteq> None \<longrightarrow>
            (\<forall>r\<in>set (cleanup_queue (snd (processCleanupQueue fl w))).
                q_name r = q_name item \<longrightarrow> q_delete_state r = True))
       \<and> (images_metadata w (q_name item) \<noteq> None \<and> uploads w (q_name item) = None \<longrightarrow>
            (\<forall>r\<in>set (cleanup_queue (snd (processCleanupQueue fl w))).
                q_name r = q_name item \<longrightarrow> q_delete_state r = False))"
proof -
  let ?ns = "map q_name pending"
  let ?w' = "foldl step_world w ?ns"
  have run: "processCleanupQueue fl w = (Inr (length pending), ?w')"
    using assms(6) processCleanupItems_no_fault [OF assms(2,3,4,5), of pending 0 w]
    by (simp add: processCleanupQueue_def)
  have pend: "pending = take 100 (sort_key q_fail_time
                 (filter (\<lambda>r. q_delete_state r = False) (cleanup_queue w)))"
    using assms(1,6) by (simp add: queue_getPending_def pg_select_pending_def)
  have inq: "item \<in> set (cleanup_queue w)"
    using assms(7) pending_subset unfolding pend by blast
  have inns: "q_name item \<in> set ?ns" using assms(7) by simp
  let ?f = "\<lambda>r. if q_name r \<in> set ?ns then r\<lparr>q_delete_state := stores_agree w (q_name r)\<rparr> else r"
  have q: "cleanup_queue ?w' = map ?f (cleanup_queue w)"
    by (rule foldl_step_world_queue)
  have marked: "q_delete_state r = stores_agree w (q_name item)"
    if "r \<in> set (cleanup_queue ?w')" "q_name r = q_name item" for r
  proof -
    from that(1) obtain r0 where r0: "r0 \<in> set (cleanup_queue w)" "r = ?f r0"
      unfolding q by auto
    have "q_name r0 = q_name item" using r0(2) that(2) by (simp split: if_splits)
    then show ?thesis using r0(2) inns by simp
  qed
  have ex: "\<exists>r\<in>set (cleanup_queue ?w'). q_name r = q_name item"
  proof -
    have "?f item \<in> set (map ?f (cleanup_queue w))" using inq by simp
    moreover have "q_name (?f item) = q_name item" by simp
    ultimately show ?thesis unfolding q by blast
  qed
  show ?thesis
    unfolding run fst_conv snd_conv
  proof (intro conjI impI ballI)
    show "Inr (length pending) = (Inr (length pending) :: jserror + nat)" ..
    show "\<exists>r\<in>set (cleanup_queue ?w'). q_name r = q_name item" by (rule ex)
  next
    assume "images_metadata w (q_name item) = None"
    then show "uploads ?w' (q_name item) = None"
      using inns by (simp add: foldl_step_world_uploads)
  next
    fix r
    assume "images_metadata w (q_name item) = None" "r \<in> set (cleanup_queue ?w')" "q_name r = q_name item"
    then show "q_delete_state r = True" using marked by (simp add: stores_agree_def)
  next
    fix r
    assume "images_metadata w (q_name item) \<noteq> None \<and> uploads w (q_name item) \<noteq> None"
      "r \<in> set (cleanup_queue ?w')" "q_name r = q_name item"
    then show "q_delete_state r = True" using marked by (simp add: stores_agree_def)
  next
    fix r
    assume "images_metadata w (q_name item) \<noteq> None \<and> uploads w (q_name item) = None"
      "r \<in> set (cleanup_queue ?w')" "q_name r = q_name item"
    then show "q_delete_state r = False" using marked by (simp add: stores_agree_def)
  qed
qed

lemma queue_world_pending:
  "queue_getPending no_faults 100 queue_world =
     Inr [\<lparr>q_name = ''orphan.png'', q_fail_time = 10, q_delete_state = False\<rparr>,
          \<lparr>q_name = ''ok.png'', q_fail_time = 20, q_delete_state = False\<rparr>,
          \<lparr>q_name = ''lost.png'', q_fail_time = 30, q_delete_state = False\<rparr>]"
  by (simp add: queue_getPending_def pg_select_pending_def queue_world_def)

theorem processCleanupQueue_decides_each_entry_witness:
  "fst (processCleanupQueue no_faults queue_world) = Inr 3
   \<and> images_metadata queue_world ''orphan.png'' = None
   \<and> uploads queue_world ''orphan.png'' = Some png_bytes
   \<and> uploads (snd (processCleanupQueue no_faults queue_world)) ''orphan.png'' = None
   \<and> (\<exists>r\<in>set (cleanup_queue (snd (processCleanupQueue no_faults queue_world))).
         q_name r = ''orphan.png'' \<and> q_delete_state r = True)
   \<and> (\<exists>r\<in>set (cleanup_queue (snd (processCleanupQueue no_faults queue_world))).
         q_name r = ''ok.png'' \<and> q_delete_state r = True)
   \<and> (\<exists>r\<in>set (cleanup_queue (snd (processCleanupQueue no_faults queue_world))).
         q_name r = ''lost.png'' \<and> q_delete_state r = False)"
proof -
  let ?o = "\<lparr>q_name = ''orphan.png'', q_fail_time = 10, q_delete_state = False\<rparr>"
  let ?k = "\<lparr>q_name = ''ok.png'', q_fail_time = 20, q_delete_state = False\<rparr>"
  let ?l = "\<lparr>q_name = ''lost.png'', q_fail_time = 30, q_delete_state = False\<rparr>"
  have f: "queue_select_fault no_faults = None" "\<forall>n. db_select_fault no_faults n = None"
    "\<forall>n. fs_access_fault no_faults n = None" "\<forall>n. fs_unlink_fault no_faults n = None"
    "\<forall>n. queue_update_fault no_faults n = None"
    by simp_all
  have st: "images_metadata queue_world ''orphan.png'' = None"
    "uploads queue_world ''orphan.png'' = Some png_bytes"
    "images_metadata queue_world ''ok.png'' \<noteq> None" "uploads queue_world ''ok.png'' \<noteq> None"
    "images_metadata queue_world ''lost.png'' \<noteq> None" "uploads queue_world ''lost.png'' = None"
    by (simp_all add: queue_world_def)
  have o: "?o \<in> set [?o, ?k, ?l]" and k: "?k \<in> set [?o, ?k, ?l]" and l: "?l \<in> set [?o, ?k, ?l]"
    by simp_all
  note t = processCleanupQueue_decides_each_entry [OF f queue_world_pending]
  have c: "fst (processCleanupQueue no_faults queue_world) = Inr 3"
    using t [OF o] by simp
  have u: "uploads (snd (processCleanupQueue no_faults queue_world)) ''orphan.png'' = None"
    using t [OF o] st by simp
  have ro: "\<exists>r\<in>set (cleanup_queue (snd (processCleanupQueue no_faults queue_world))).
         q_name r = ''orphan.png'' \<and> q_delete_state r = True"
    using t [OF o] st(1) by (simp (no_asm_use)) blast
  have rk: "\<exists>r\<in>set (cleanup_queue (snd (processCleanupQueue no_faults queue_world))).
         q_name r = ''ok.png'' \<and> q_delete_state r = True"
    using t [OF k] st(3,4) by (simp (no_asm_use)) blast
  have rl: "\<exists>r\<in>set (cleanup_queue (snd (processCleanupQueue no_faults queue_world))).
         q_name r = ''lost.png'' \<and> q_delete_state r = False"
    using t [OF l] st(5,6) by (simp (no_asm_use)) blast
  show ?thesis using c u ro rk rl st(1,2) by blast
qed

section \<open>Properties of the upload controller\<close>


lemma metadata_create_upload_no_fault:
  assumes "db_insert_fault fl (uploaded_row name maskName mime sz (current_timestamp w)) = None"
      and "images_metadata w name = None"
  shows "metadata_create fl (upload_metadata name maskName mime sz) w =
           (Inr (uploaded_row name maskName mime sz (current_timestamp w)),
            w\<lparr>images_metadata := (images_metadata w)(name \<mapsto> uploaded_row name maskName mime sz (current_timestamp w))\<rparr>)"
  using assms
  by (simp add: metadata_create_def upload_metadata_def uploaded_row_def get_prop_def
      pg_insert_image_def sql_value_def Let_def)

text \<open>
  Steps 4 to 7 when nothing fails, for any validation result and any result of the
  transformation step: the content store gets the transformed buffer and the row its
  length and the validated media type, while the response carries the media type and the
  buffer length of the file as received.
\<close>

lemma uploadImage_store_no_fault:
  assumes "fs_mkdir_fault fl = None"
      and "fs_writeFile_fault fl name = None"
      and "fs_stat_fault fl name = None"
      and "db_insert_fault fl (uploaded_row name (originalname file) (vr_mimeType v)
              (length (tr_buffer t)) (current_timestamp w)) = None"
      and "images_metadata w name = None"
      and "name = generateUniqueFilename (date_now env) (uuidv4 env) (tr_extension t)"
  shows "uploadImage_store env fl file v t w =
     (Inr \<lparr>status = 200,
           body = UploadSuccess name (originalname file) (''/images/'' @ name) (mimetype file)
                    (length (buffer file))\<rparr>,
      w\<lparr>uploads := (uploads w)(name \<mapsto> tr_buffer t),
        images_metadata := (images_metadata w)(name \<mapsto>
           uploaded_row name (originalname file) (vr_mimeType v) (length (tr_buffer t)) (current_timestamp w))\<rparr>)"
proof -
  let ?w1 = "w\<lparr>uploads := (uploads w)(name \<mapsto> tr_buffer t)\<rparr>"
  have s: "saveFile fl (tr_buffer t) name w = (Inr (length (tr_buffer t)), ?w1)"
    using assms(1,2,3) by (rule saveFile_no_fault)
  have c: "metadata_create fl (upload_metadata name (originalname file) (vr_mimeType v) (length (tr_buffer t))) ?w1
        = (Inr (uploaded_row name (originalname file) (vr_mimeType v) (length (tr_buffer t)) (current_timestamp w)),
           ?w1\<lparr>images_metadata := (images_metadata w)(name \<mapsto>
              uploaded_row name (originalname file) (vr_mimeType v) (length (tr_buffer t)) (current_timestamp w))\<rparr>)"
    using metadata_create_upload_no_fault [of fl name "originalname file" "vr_mimeType v" "length (tr_buffer t)" ?w1]
      assms(4,5) by simp
  show ?thesis
    unfolding uploadImage_store_def assms(6) [symmetric] Let_def upload_metadata_def [symmetric]
    by (simp add: executeUploadTransaction_def s c)
qed

lemma digits_example: "digits 1700000000000 = ''1700000000000''"
  by (simp add: digits.simps digit_char_def)

lemma stored_name_eq:
  "generateUniqueFilename (date_now std_env) (uuidv4 std_env) ''.png'' = stored_name"
  by (simp add: generateUniqueFilename_def std_env_def digits_example stored_name_def)

lemma validateFile_octet_png:
  "validateFile mime_lookup_std octet_png =
     Inr \<lparr>vr_isValid = True, vr_extension = ''.png'', vr_mimeType = ''image/png'', vr_size = 8\<rparr>"
  by (simp add: validateFile_def octet_png_def validateExtension_def extractExtension_def
      lastIndexOf_def toLowerCase_def toLowerCase_char_def ALLOWED_FILES_def
      mime_lookup_std_def mime_types_def
      validateMimeType_def crossValidateExtensionAndMime_def
      validateFileSignature_def FILE_SIGNATURES_def bufferStartsWith_def bufferStartsWith_from.simps)

text \<open>
  Claim C9 (the response of a successful upload reports the media type that the pipeline
  established, never the client-declared one, and the size of the content persisted) does
  not hold of the code. A PNG sent with the declared type
  \<^verbatim>\<open>application/octet-stream\<close> and no transformation is accepted and stored, and
  its row has the type \<^verbatim>\<open>image/png\<close> that the pipeline established; the response
  reports \<^verbatim>\<open>application/octet-stream\<close>, the declared type. The size in the
  response is the length of the buffer received, here also the size persisted.
\<close>

theorem upload_response_reports_declared_media_type:
  "uploadImage std_env no_faults (Some octet_png) no_query empty_world =
     (\<lparr>status = 200,
       body = UploadSuccess stored_name ''photo.png'' (''/images/'' @ stored_name)
                ''application/octet-stream'' 8\<rparr>,
      empty_world\<lparr>uploads := [stored_name \<mapsto> buffer octet_png],
        images_metadata := [stored_name \<mapsto>
          \<lparr>r_name = stored_name, r_mask_name = Str ''photo.png'',
           r_path = Str (''/uploads/'' @ stored_name), r_mime = Str ''image/png'',
           r_size = Num 8, r_created_at = 0\<rparr>]\<rparr>)"
proof -
  let ?v = "\<lparr>vr_isValid = True, vr_extension = ''.png'', vr_mimeType = ''image/png'',
            vr_size = 8\<rparr>"
  let ?t = "\<lparr>tr_buffer = buffer octet_png, tr_extension = ''.png'',
            tr_wasTransformed = False\<rparr>"
  have st: "uploadImage_store std_env no_faults octet_png ?v ?t empty_world =
     (Inr \<lparr>status = 200,
           body = UploadSuccess stored_name (originalname octet_png)
                    (''/images/'' @ stored_name) (mimetype octet_png)
                    (length (buffer octet_png))\<rparr>,
      empty_world\<lparr>uploads := (uploads empty_world)(stored_name \<mapsto> tr_buffer ?t),
        images_metadata := (images_metadata empty_world)(stored_name \<mapsto>
           uploaded_row stored_name (originalname octet_png) (vr_mimeType ?v)
             (length (tr_buffer ?t)) (current_timestamp empty_world))\<rparr>)"
    by (rule uploadImage_store_no_fault)
       (simp_all add: no_faults_def empty_world_def stored_name_eq)
  have v: "validateFile (mime_lookup std_env) octet_png = Inr ?v"
    using validateFile_octet_png by (simp add: std_env_def)
  have "uploadImage_try std_env no_faults octet_png no_query empty_world
        = uploadImage_store std_env no_faults octet_png ?v ?t empty_world"
    using v by (simp add: uploadImage_try_def hasAnyTransformation_def truthy_def no_query_def)
  then have "uploadImage std_env no_faults (Some octet_png) no_query empty_world =
     (\<lparr>status = 200,
           body = UploadSuccess stored_name (originalname octet_png)
                    (''/images/'' @ stored_name) (mimetype octet_png)
                    (length (buffer octet_png))\<rparr>,
      empty_world\<lparr>uploads := (uploads empty_world)(stored_name \<mapsto> tr_buffer ?t),
        images_metadata := (images_metadata empty_world)(stored_name \<mapsto>
           uploaded_row stored_name (originalname octet_png) (vr_mimeType ?v)
             (length (tr_buffer ?t)) (current_timestamp empty_world))\<rparr>)"
    by (simp add: uploadImage_def st)
  moreover have "length (buffer octet_png) = 8"
    "originalname octet_png = ''photo.png''" "mimetype octet_png = ''application/octet-stream''"
    by (simp_all add: octet_png_def)
  ultimately show ?thesis
    by (simp add: empty_world_def uploaded_row_def getRelativePath_def)
qed

end
